theory Spec2Isabelle
  imports Complex_Main "HOL-Library.Multiset"
begin

section \<open>The projection engine of the military-power dashboard\<close>

text \<open>
  The three functions of the page "2047 Predictions" of \<^verbatim>\<open>app.py\<close>:
  \<^verbatim>\<open>create_strength_score\<close>, \<^verbatim>\<open>analyze_growth_trajectory\<close> and
  \<^verbatim>\<open>predict_future_ranking\<close>, and the caller that chains them.

  A data frame is a list of rows, a row a record of its columns. Floating-point numbers
  are modelled as exact reals, and the missing value of pandas (NaN) as a value of its
  own, so rounding is outside this development. A float column that a division fills is a
  column of \<open>real option\<close>, \<open>None\<close> standing for NaN. A function that assigns to a column of
  the frame it is given returns the frame as it is after the call next to its result.
\<close>

subsection \<open>Cells and the country table\<close>

text \<open>
  A cell of a column read from a CSV file: a number, a string (a column of dtype object),
  or missing.
\<close>

datatype cell = Num real | Text string | NaN

text \<open>
  How pandas reads a string as a number is not part of the program; it is a parameter.
\<close>

type_synonym parser = "string \<Rightarrow> real option"

datatype error = ValueError | TypeError

text \<open>
  The columns that the engine carries from table to table: the country name and the
  published power index (a float column, \<open>None\<close> where it is missing).
\<close>

record entity =
  country :: string
  pwr_index :: "real option"

text \<open>
  A row of \<^verbatim>\<open>military_strength\<close>: the country code (\<open>None\<close> where missing)
  and the seven indicator columns.
\<close>

record country_row = entity +
  country_code :: "string option"
  total_national_populations :: cell
  active_service_military_manpower :: cell
  total_military_aircraft_strength :: cell
  total_combat_tank_strength :: cell
  navy_strength :: cell
  national_annual_defense_budgets :: cell
  purchasing_power_parities :: cell

definition power_columns :: "(country_row \<Rightarrow> cell) list" where
  "power_columns =
     [total_national_populations,
      active_service_military_manpower,
      total_military_aircraft_strength,
      total_combat_tank_strength,
      navy_strength,
      national_annual_defense_budgets,
      purchasing_power_parities]"

text \<open>\<^verbatim>\<open>pd.to_numeric(..., errors='coerce')\<close> on one cell.\<close>

fun to_numeric :: "parser \<Rightarrow> cell \<Rightarrow> cell" where
  "to_numeric p (Num x) = Num x"
| "to_numeric p (Text s) = (case p s of Some x \<Rightarrow> Num x | None \<Rightarrow> NaN)"
| "to_numeric p NaN = NaN"

text \<open>
  The loop \<^verbatim>\<open>for col in power_columns: df[col] = pd.to_numeric(df[col], errors='coerce')\<close>,
  seen from one row. It assigns to the frame that was passed in.
\<close>

definition coerce_row :: "parser \<Rightarrow> country_row \<Rightarrow> country_row" where
  "coerce_row p r =
     r\<lparr>total_national_populations := to_numeric p (total_national_populations r),
       active_service_military_manpower := to_numeric p (active_service_military_manpower r),
       total_military_aircraft_strength := to_numeric p (total_military_aircraft_strength r),
       total_combat_tank_strength := to_numeric p (total_combat_tank_strength r),
       navy_strength := to_numeric p (navy_strength r),
       national_annual_defense_budgets := to_numeric p (national_annual_defense_budgets r),
       purchasing_power_parities := to_numeric p (purchasing_power_parities r)\<rparr>"

definition isna :: "cell \<Rightarrow> bool" where
  "isna c = (c = NaN)"

text \<open>\<^verbatim>\<open>df.dropna(subset=power_columns)\<close>.\<close>

definition dropna :: "country_row list \<Rightarrow> country_row list" where
  "dropna df = filter (\<lambda>r. list_all (\<lambda>col. \<not> isna (col r)) power_columns) df"

text \<open>
  Reading a cell of a numeric column as a float. After the coercion and
  \<^verbatim>\<open>dropna\<close> every cell that is read is a number.
\<close>

fun the_float :: "cell \<Rightarrow> real" where
  "the_float (Num x) = x"

text \<open>\<^verbatim>\<open>df_clean[power_columns]\<close> as a matrix, one list of seven floats per row.\<close>

definition select_power :: "country_row list \<Rightarrow> real list list" where
  "select_power df_clean = map (\<lambda>r. map (\<lambda>col. the_float (col r)) power_columns) df_clean"

subsection \<open>Division of floats\<close>

text \<open>
  Dividing two floats never raises in numpy and pandas: a division by zero gives an infinity
  or NaN. Neither is a real number; both are \<open>None\<close> here.
\<close>

definition float_div :: "real \<Rightarrow> real \<Rightarrow> real option" where
  "float_div a b = (if b = 0 then None else Some (a / b))"

subsection \<open>The scaler of scikit-learn\<close>

text \<open>
  \<^verbatim>\<open>StandardScaler().fit_transform\<close>: every column has its mean subtracted and is
  divided by its standard deviation, the biased one (divided by the number of rows). A
  column of standard deviation zero is left unscaled, its divisor being one. An array of
  no rows is refused with a \<^verbatim>\<open>ValueError\<close>. The scaler is the library's, not code of
  the dashboard: the definitions below follow its documented behaviour.
\<close>

definition mean :: "real list \<Rightarrow> real" where
  "mean xs = sum_list xs / real (length xs)"

definition var :: "real list \<Rightarrow> real" where
  "var xs = mean (map (\<lambda>x. (x - mean xs)\<^sup>2) xs)"

definition scale_of :: "real list \<Rightarrow> real" where
  "scale_of xs = (if sqrt (var xs) = 0 then 1 else sqrt (var xs))"

definition column :: "nat \<Rightarrow> real list list \<Rightarrow> real list" where
  "column j X = map (\<lambda>row. row ! j) X"

definition transform_row :: "real list list \<Rightarrow> real list \<Rightarrow> real option list" where
  "transform_row X row =
     map (\<lambda>j. float_div (row ! j - mean (column j X)) (scale_of (column j X))) [0..<length row]"

definition fit_transform :: "real list list \<Rightarrow> error + real option list list" where
  "fit_transform X = (if X = [] then Inl ValueError else Inr (map (transform_row X) X))"

subsection \<open>Sorting a frame\<close>

text \<open>
  \<^verbatim>\<open>sort_values(key, ascending=False)\<close> on a column without missing values. Rows of
  equal key keep the order they had; pandas promises no order among them, and nothing
  below depends on it.
\<close>

definition sort_values_desc :: "('a \<Rightarrow> real) \<Rightarrow> 'a list \<Rightarrow> 'a list" where
  "sort_values_desc key df = sort_key (\<lambda>r. - key r) df"

text \<open>
  \<^verbatim>\<open>sort_values(key, ascending=False)\<close> on a column that may hold NaN: the rows
  with a number come first, largest first, the rows with NaN last in the order they had.
\<close>

definition sort_values_desc_nan :: "('a \<Rightarrow> real option) \<Rightarrow> 'a list \<Rightarrow> 'a list" where
  "sort_values_desc_nan key df =
     sort_values_desc (\<lambda>r. the (key r)) (filter (\<lambda>r. key r \<noteq> None) df)
     @ filter (\<lambda>r. key r = None) df"

subsection \<open>The strength scorer\<close>

record strength_row = entity +
  scaled :: "real option list"
  strength_score :: "real option"

text \<open>
  \<^verbatim>\<open>scaled_df.mean(axis=1)\<close> on one row: pandas skips NaN, and the mean of no
  value is NaN.
\<close>

definition row_mean :: "real option list \<Rightarrow> real option" where
  "row_mean cells =
     (case List.map_filter id cells of
        [] \<Rightarrow> None
      | x # xs \<Rightarrow> Some (sum_list (x # xs) / real (length (x # xs))))"

definition scored_row :: "real option list \<Rightarrow> country_row \<Rightarrow> strength_row" where
  "scored_row z r =
     \<lparr>country = country r, pwr_index = pwr_index r, scaled = z, strength_score = row_mean z\<rparr>"

text \<open>
  \<^verbatim>\<open>create_strength_score(df)\<close>. The first component of the result is the frame
  \<open>df\<close> as the call leaves it, the second what the call returns or raises.
\<close>

definition create_strength_score ::
  "parser \<Rightarrow> country_row list \<Rightarrow> country_row list \<times> (error + strength_row list)" where
  "create_strength_score p df0 =
     (let df = map (coerce_row p) df0;
          df_clean = dropna df
      in (df,
          case fit_transform (select_power df_clean) of
            Inl e \<Rightarrow> Inl e
          | Inr scaled_data \<Rightarrow>
              Inr (sort_values_desc_nan strength_score (map2 scored_row scaled_data df_clean))))"

subsection \<open>The budget table\<close>

text \<open>
  A row of \<^verbatim>\<open>defense_budget\<close>: its country code (\<open>None\<close> where missing) and,
  for a year, the cell in the column named by that year. The frame records which years
  name a column.
\<close>

record budget_row =
  Country_Code :: "string option"
  year_cell :: "int \<Rightarrow> cell"

record budget_table =
  year_columns :: "int list"
  budget_rows :: "budget_row list"

text \<open>
  A column that holds a string in some row has dtype object, and so has the array taken
  from a selection of columns that contains it.
\<close>

fun is_text :: "cell \<Rightarrow> bool" where
  "is_text (Text s) = True"
| "is_text c = False"

definition object_column :: "budget_table \<Rightarrow> int \<Rightarrow> bool" where
  "object_column budget_df y = list_ex (\<lambda>r. is_text (year_cell r y)) (budget_rows budget_df)"

subsection \<open>The growth trajectory estimator\<close>

text \<open>
  \<^verbatim>\<open>dict(zip(military_strength['country'], military_strength['country_code']))\<close>:
  of two rows with one country name, the later one stays.
\<close>

definition country_mapping :: "country_row list \<Rightarrow> (string \<rightharpoonup> string option)" where
  "country_mapping military_strength =
     map_of (rev (map (\<lambda>r. (country r, country_code r)) military_strength))"

text \<open>
  \<^verbatim>\<open>if country_code:\<close> on a value of the code column: a missing code is the float
  NaN, which Python takes as true; a string is true unless empty.
\<close>

fun truthy :: "string option \<Rightarrow> bool" where
  "truthy None = True"
| "truthy (Some s) = (s \<noteq> [])"

text \<open>\<^verbatim>\<open>budget_df['Country Code'] == country_code\<close>: NaN equals nothing.\<close>

definition code_eq :: "string option \<Rightarrow> string option \<Rightarrow> bool" where
  "code_eq a b = (a \<noteq> None \<and> a = b)"

text \<open>\<^verbatim>\<open>np.isnan\<close> has no meaning on an array of dtype object and raises there.\<close>

definition np_isnan :: "bool \<Rightarrow> cell list \<Rightarrow> error + bool list" where
  "np_isnan object_dtype values =
     (if object_dtype then Inl TypeError else Inr (map isna values))"

text \<open>Indexing an array by a boolean array: \<^verbatim>\<open>a[masked]\<close>.\<close>

definition masked :: "'a list \<Rightarrow> bool list \<Rightarrow> 'a list" where
  "masked a m = map fst (filter snd (zip a m))"

text \<open>
  \<^verbatim>\<open>LinearRegression().fit(X, y).coef_[0]\<close> for a single regressor: the slope of the
  least-squares line.
\<close>

definition coef :: "real list \<Rightarrow> real list \<Rightarrow> real" where
  "coef X y =
     (\<Sum>(x, v) \<leftarrow> zip X y. (x - mean X) * (v - mean y)) / (\<Sum>x \<leftarrow> X. (x - mean X)\<^sup>2)"

text \<open>Lines 1866 to 1877: from the values of one country to its growth score.\<close>

definition trend :: "bool \<Rightarrow> cell list \<Rightarrow> error + real" where
  "trend object_dtype values =
     (case np_isnan object_dtype values of
        Inl e \<Rightarrow> Inl e
      | Inr nan \<Rightarrow>
          (let valid_indices = map Not nan in
           if length (filter id valid_indices) > 5 then
             (let X = map real (masked [0..<length values] valid_indices);
                  y = map the_float (masked values valid_indices)
              in Inr (coef X y))
           else Inr 0))"

text \<open>The body of the \<^verbatim>\<open>try\<close> for one country: a growth score, or an exception.\<close>

definition growth_of_country ::
  "(string \<rightharpoonup> string option) \<Rightarrow> budget_table \<Rightarrow> string \<Rightarrow> error + real" where
  "growth_of_country mapping budget_df c =
     (case mapping c of
        None \<Rightarrow> Inr 0
      | Some code \<Rightarrow>
          if truthy code then
            (case filter (\<lambda>r. code_eq (Country_Code r) code) (budget_rows budget_df) of
               [] \<Rightarrow> Inr 0
             | row # _ \<Rightarrow>
                 (let years = filter (\<lambda>y. y \<in> set (year_columns budget_df)) [2000..2020] in
                  if years \<noteq> [] then
                    trend (list_ex (object_column budget_df) years) (map (year_cell row) years)
                  else Inr 0))
          else Inr 0)"

text \<open>The \<^verbatim>\<open>except\<close> clause: any exception of the body becomes the score 0.\<close>

definition growth_score_of ::
  "(string \<rightharpoonup> string option) \<Rightarrow> budget_table \<Rightarrow> string \<Rightarrow> real" where
  "growth_score_of mapping budget_df c =
     (case growth_of_country mapping budget_df c of Inl e \<Rightarrow> 0 | Inr g \<Rightarrow> g)"

text \<open>\<^verbatim>\<open>Series.min()\<close> and \<^verbatim>\<open>Series.max()\<close>; of an empty series they are NaN.\<close>

fun series_min :: "real list \<Rightarrow> real option" where
  "series_min [] = None"
| "series_min (x # xs) = Some (fold min xs x)"

fun series_max :: "real list \<Rightarrow> real option" where
  "series_max [] = None"
| "series_max (x # xs) = Some (fold max xs x)"

text \<open>
  Lines 1892 to 1898, the column \<^verbatim>\<open>growth_score_normalized\<close>. A comparison with NaN
  is false.
\<close>

definition normalize :: "real list \<Rightarrow> real option list" where
  "normalize growth_scores =
     (case (series_min growth_scores, series_max growth_scores) of
        (Some min_growth, Some max_growth) \<Rightarrow>
          if max_growth > min_growth then
            map (\<lambda>g. float_div (g - min_growth) (max_growth - min_growth)) growth_scores
          else map (\<lambda>g. Some 0) growth_scores
      | _ \<Rightarrow> map (\<lambda>g. Some 0) growth_scores)"

record growth_row = strength_row +
  growth_score :: real
  growth_score_normalized :: "real option"

definition with_growth :: "strength_row \<Rightarrow> real \<times> real option \<Rightarrow> growth_row" where
  "with_growth r gn =
     \<lparr>country = country r, pwr_index = pwr_index r, scaled = scaled r,
      strength_score = strength_score r,
      growth_score = fst gn, growth_score_normalized = snd gn\<rparr>"

text \<open>
  \<^verbatim>\<open>analyze_growth_trajectory(strength_df, budget_df)\<close>. It reads the global
  \<^verbatim>\<open>military_strength\<close>, here a parameter. The frame it returns is the frame
  \<open>strength_df\<close> it was given, with the two growth columns assigned.
\<close>

definition analyze_growth_trajectory ::
  "country_row list \<Rightarrow> strength_row list \<Rightarrow> budget_table \<Rightarrow> growth_row list" where
  "analyze_growth_trajectory military_strength strength_df budget_df =
     (let mapping = country_mapping military_strength;
          growth_scores = map (growth_score_of mapping budget_df) (map country strength_df)
      in map2 with_growth strength_df (zip growth_scores (normalize growth_scores)))"

subsection \<open>The projection ranker\<close>

record proj_row = growth_row +
  projection_score :: "real option"

text \<open>The weights of lines 1909 to 1916.\<close>

definition strength_weight :: "int \<Rightarrow> real" where
  "strength_weight target_year = (if target_year - 2024 > 10 then 0.5 else 0.7)"

definition growth_weight :: "int \<Rightarrow> real" where
  "growth_weight target_year = (if target_year - 2024 > 10 then 0.5 else 0.3)"

text \<open>The score of one row; it is NaN where one of the three columns is.\<close>

definition score :: "int \<Rightarrow> growth_row \<Rightarrow> real option" where
  "score target_year r =
     (case strength_score r of
        None \<Rightarrow> None
      | Some strength \<Rightarrow>
          (case growth_score_normalized r of
             None \<Rightarrow> None
           | Some growth \<Rightarrow>
               (case pwr_index r of
                  None \<Rightarrow> None
                | Some pwr \<Rightarrow>
                    Some (strength_weight target_year * strength
                          + growth_weight target_year * growth
                          - 0.2 * pwr))))"

definition with_projection :: "int \<Rightarrow> growth_row \<Rightarrow> proj_row" where
  "with_projection target_year r =
     \<lparr>country = country r, pwr_index = pwr_index r, scaled = scaled r,
      strength_score = strength_score r,
      growth_score = growth_score r, growth_score_normalized = growth_score_normalized r,
      projection_score = score target_year r\<rparr>"

text \<open>
  \<^verbatim>\<open>predict_future_ranking(df, target_year)\<close>. The first component is the frame
  \<open>df\<close> as the call leaves it (the column \<^verbatim>\<open>projection_score\<close> assigned), the
  second the sorted frame that is returned.
\<close>

definition predict_future_ranking :: "growth_row list \<Rightarrow> int \<Rightarrow> proj_row list \<times> proj_row list" where
  "predict_future_ranking df0 target_year =
     (let df = map (with_projection target_year) df0;
          df_sorted = sort_values_desc_nan projection_score df
      in (df, df_sorted))"

subsection \<open>The caller\<close>

text \<open>
  Lines 1931 to 1940 and the \<^verbatim>\<open>except\<close> of line 2032: the three steps in a row; an
  exception of the scorer ends the run. The first component is the frame
  \<^verbatim>\<open>military_strength\<close> after the run. The caller passes no target year to the
  ranker, whose default is 2047; here the year is a parameter.
\<close>

definition pipeline ::
  "parser \<Rightarrow> country_row list \<Rightarrow> budget_table \<Rightarrow> int
     \<Rightarrow> country_row list \<times> (error + proj_row list)" where
  "pipeline p military_strength0 defense_budget target_year =
     (case create_strength_score p military_strength0 of
        (military_strength, Inl e) \<Rightarrow> (military_strength, Inl e)
      | (military_strength, Inr strength_df) \<Rightarrow>
          (let projection_df = analyze_growth_trajectory military_strength strength_df defense_budget;
               future_ranking = snd (predict_future_ranking projection_df target_year)
           in (military_strength, Inr future_ranking)))"

section \<open>Notions of the statements and example tables\<close>

text \<open>
  A cell that holds a number.
\<close>

fun is_num :: "cell \<Rightarrow> bool" where
  "is_num (Num x) = True"
| "is_num c = False"

text \<open>
  The rows that survive: all seven indicators coerce to a number.
\<close>

definition all_seven_numeric :: "parser \<Rightarrow> country_row \<Rightarrow> bool" where
  "all_seven_numeric p r = list_all (\<lambda>col. is_num (to_numeric p (col r))) power_columns"

text \<open>
  The seven indicator values of a row after the coercion.
\<close>

definition floats :: "parser \<Rightarrow> country_row \<Rightarrow> real list" where
  "floats p r = map (\<lambda>col. the_float (to_numeric p (col r))) power_columns"

text \<open>
  The matrix handed to the scaler: the indicator values of the surviving rows.
\<close>

definition clean_matrix :: "parser \<Rightarrow> country_row list \<Rightarrow> real list list" where
  "clean_matrix p df = map (floats p) (filter (all_seven_numeric p) df)"

text \<open>
  The scored frame before it is sorted.
\<close>

definition scored :: "parser \<Rightarrow> country_row list \<Rightarrow> strength_row list" where
  "scored p df =
     map (\<lambda>r. scored_row (transform_row (clean_matrix p df) (floats p r)) r)
       (filter (all_seven_numeric p) df)"

text \<open>
  A column whose values are all equal.
\<close>

definition constant_column :: "real list \<Rightarrow> bool" where
  "constant_column c = list_all (\<lambda>y. y = hd c) c"

text \<open>
  \<^verbatim>\<open>valid_indices = ~np.isnan(values)\<close>.
\<close>

text \<open>
  \<^verbatim>\<open>valid_indices = ~np.isnan(values)\<close>.
\<close>

definition valid_indices :: "cell list \<Rightarrow> bool list" where
  "valid_indices values = map (\<lambda>v. \<not> isna v) values"

text \<open>
  \<^verbatim>\<open>X = np.array(range(len(values)))[valid_indices]\<close>, as reals.
\<close>

text \<open>
  \<^verbatim>\<open>X = np.array(range(len(values)))[valid_indices]\<close>, as reals.
\<close>

definition regressor :: "cell list \<Rightarrow> real list" where
  "regressor values = map real (masked [0..<length values] (valid_indices values))"

text \<open>
  \<^verbatim>\<open>y = values[valid_indices]\<close>.
\<close>

text \<open>
  \<^verbatim>\<open>y = values[valid_indices]\<close>.
\<close>

definition response :: "cell list \<Rightarrow> real list" where
  "response values = map the_float (masked values (valid_indices values))"

text \<open>
  Lines 1851 to 1863: the array \<^verbatim>\<open>values\<close> of a country that has a truthy code, a budget
  row and at least one year column, with whether its dtype is object; \<open>None\<close> for a country
  that takes one of the branches \<^verbatim>\<open>growth_score = 0\<close> before.
\<close>

text \<open>
  Lines 1851 to 1863: the array \<^verbatim>\<open>values\<close> of a country that has a truthy code, a budget
  row and at least one year column, with whether its dtype is object; \<open>None\<close> for a country
  that takes one of the branches \<^verbatim>\<open>growth_score = 0\<close> before.
\<close>

definition lookup_values ::
  "(string \<rightharpoonup> string option) \<Rightarrow> budget_table \<Rightarrow> string \<Rightarrow> (bool \<times> cell list) option" where
  "lookup_values mapping budget_df c =
     (case mapping c of
        None \<Rightarrow> None
      | Some code \<Rightarrow>
          if truthy code then
            (case filter (\<lambda>r. code_eq (Country_Code r) code) (budget_rows budget_df) of
               [] \<Rightarrow> None
             | row # _ \<Rightarrow>
                 (let years = filter (\<lambda>y. y \<in> set (year_columns budget_df)) [2000..2020] in
                  if years \<noteq> [] then
                    Some (list_ex (object_column budget_df) years, map (year_cell row) years)
                  else None))
          else None)"

text \<open>
  The regressor in the words of the specification: the 0-based sequential index over the
  valid years, the position within the filtered sequence.
\<close>

definition sequential_index :: "cell list \<Rightarrow> real list" where
  "sequential_index values = map real [0..<length (response values)]"

text \<open>
  The order of a frame sorted by a score, largest first, rows without a score last.
\<close>

fun desc_nan_last :: "real option \<Rightarrow> real option \<Rightarrow> bool" where
  "desc_nan_last (Some a) (Some b) = (b \<le> a)"
| "desc_nan_last (Some a) None = True"
| "desc_nan_last None None = True"
| "desc_nan_last None (Some b) = False"

text \<open>A parser that reads no string as a number.\<close>

definition unparsed :: parser where
  "unparsed s = None"

text \<open>
  Three countries: \<open>A\<close> and \<open>B\<close> with all seven indicators, equal in the last one, and
  \<open>C\<close> whose population is a string with a thousands separator.
\<close>

definition country_A :: country_row where
  "country_A = \<lparr>country = ''A'', pwr_index = Some 0.2, country_code = Some ''AAA'',
     total_national_populations = Num 1, active_service_military_manpower = Num 1,
     total_military_aircraft_strength = Num 1, total_combat_tank_strength = Num 1,
     navy_strength = Num 1, national_annual_defense_budgets = Num 1,
     purchasing_power_parities = Num 5\<rparr>"

definition country_B :: country_row where
  "country_B = \<lparr>country = ''B'', pwr_index = Some 0.3, country_code = Some ''BBB'',
     total_national_populations = Num 3, active_service_military_manpower = Num 3,
     total_military_aircraft_strength = Num 3, total_combat_tank_strength = Num 3,
     navy_strength = Num 3, national_annual_defense_budgets = Num 3,
     purchasing_power_parities = Num 5\<rparr>"

definition country_C :: country_row where
  "country_C = \<lparr>country = ''C'', pwr_index = Some 0.4, country_code = Some ''CCC'',
     total_national_populations = Text ''1,000'', active_service_military_manpower = Num 3,
     total_military_aircraft_strength = Num 3, total_combat_tank_strength = Num 3,
     navy_strength = Num 3, national_annual_defense_budgets = Num 3,
     purchasing_power_parities = Num 3\<rparr>"

definition strength_A :: strength_row where
  "strength_A = \<lparr>country = ''A'', pwr_index = Some 0.2,
     scaled = [Some (- 1), Some (- 1), Some (- 1), Some (- 1), Some (- 1), Some (- 1), Some 0],
     strength_score = Some (- 6 / 7)\<rparr>"

definition strength_B :: strength_row where
  "strength_B = \<lparr>country = ''B'', pwr_index = Some 0.3,
     scaled = [Some 1, Some 1, Some 1, Some 1, Some 1, Some 1, Some 0],
     strength_score = Some (6 / 7)\<rparr>"

text \<open>
  A budget table with the columns 2000 to 2006: \<open>AAA\<close> grows by one a year and has no
  value for 2001, \<open>BBB\<close> is flat, \<open>CCC\<close> has values for four years only.
\<close>

definition budget_AAA :: budget_row where
  "budget_AAA = \<lparr>Country_Code = Some ''AAA'',
     year_cell = (\<lambda>y. if y = 2001 then NaN else Num (real_of_int (y - 2000)))\<rparr>"

definition budget_BBB :: budget_row where
  "budget_BBB = \<lparr>Country_Code = Some ''BBB'', year_cell = (\<lambda>y. Num 7)\<rparr>"

definition budget_CCC :: budget_row where
  "budget_CCC = \<lparr>Country_Code = Some ''CCC'',
     year_cell = (\<lambda>y. if y \<le> 2003 then Num 2 else NaN)\<rparr>"

definition example_budget :: budget_table where
  "example_budget = \<lparr>year_columns = [2000, 2001, 2002, 2003, 2004, 2005, 2006],
     budget_rows = [budget_AAA, budget_BBB, budget_CCC]\<rparr>"

definition example_mapping :: "string \<rightharpoonup> string option" where
  "example_mapping = country_mapping [country_A, country_B, country_C]"

definition values_AAA :: "cell list" where
  "values_AAA = [Num 0, NaN, Num 2, Num 3, Num 4, Num 5, Num 6]"

definition values_CCC :: "cell list" where
  "values_CCC = [Num 2, Num 2, Num 2, Num 2, NaN, NaN, NaN]"

definition values_BBB :: "cell list" where
  "values_BBB = [Num 7, Num 7, Num 7, Num 7, Num 7, Num 7, Num 7]"

definition growth_A :: growth_row where
  "growth_A = \<lparr>country = ''A'', pwr_index = Some 0.2,
     scaled = [Some (- 1), Some (- 1), Some (- 1), Some (- 1), Some (- 1), Some (- 1), Some 0],
     strength_score = Some (- 6 / 7),
     growth_score = 1, growth_score_normalized = Some 1\<rparr>"

definition growth_B :: growth_row where
  "growth_B = \<lparr>country = ''B'', pwr_index = Some 0.3,
     scaled = [Some 1, Some 1, Some 1, Some 1, Some 1, Some 1, Some 0],
     strength_score = Some (6 / 7),
     growth_score = 0, growth_score_normalized = Some 0\<rparr>"

text \<open>A strength row of a country that the country table does not list.\<close>

definition strength_Z :: strength_row where
  "strength_Z = \<lparr>country = ''Z'', pwr_index = None,
     scaled = [Some 0, Some 0, Some 0, Some 0, Some 0, Some 0, Some 0],
     strength_score = Some 0\<rparr>"

text \<open>A budget table whose year columns hold strings in one row.\<close>

definition budget_TTT :: budget_row where
  "budget_TTT = \<lparr>Country_Code = Some ''TTT'', year_cell = (\<lambda>y. Text ''n/a'')\<rparr>"

definition text_budget :: budget_table where
  "text_budget = \<lparr>year_columns = [2000, 2001, 2002, 2003, 2004, 2005, 2006],
     budget_rows = [budget_AAA, budget_TTT]\<rparr>"

definition proj_A :: proj_row where
  "proj_A = \<lparr>country = ''A'', pwr_index = Some 0.2,
     scaled = [Some (- 1), Some (- 1), Some (- 1), Some (- 1), Some (- 1), Some (- 1), Some 0],
     strength_score = Some (- 6 / 7),
     growth_score = 1, growth_score_normalized = Some 1,
     projection_score = Some (11 / 350)\<rparr>"

definition proj_B :: proj_row where
  "proj_B = \<lparr>country = ''B'', pwr_index = Some 0.3,
     scaled = [Some 1, Some 1, Some 1, Some 1, Some 1, Some 1, Some 0],
     strength_score = Some (6 / 7),
     growth_score = 0, growth_score_normalized = Some 0,
     projection_score = Some (129 / 350)\<rparr>"

text \<open>
  A fourth country \<open>D\<close>, and a budget table in which \<open>AAA\<close> and \<open>DDD\<close> both grow by one a
  year.
\<close>

definition country_D :: country_row where
  "country_D = \<lparr>country = ''D'', pwr_index = Some 0.5, country_code = Some ''DDD'',
     total_national_populations = Num 2, active_service_military_manpower = Num 2,
     total_military_aircraft_strength = Num 2, total_combat_tank_strength = Num 2,
     navy_strength = Num 2, national_annual_defense_budgets = Num 2,
     purchasing_power_parities = Num 5\<rparr>"

definition budget_DDD :: budget_row where
  "budget_DDD = \<lparr>Country_Code = Some ''DDD'',
     year_cell = (\<lambda>y. Num (real_of_int (y - 1990)))\<rparr>"

definition parallel_budget :: budget_table where
  "parallel_budget = \<lparr>year_columns = [2000, 2001, 2002, 2003, 2004, 2005, 2006],
     budget_rows = [budget_AAA, budget_DDD]\<rparr>"

definition values_DDD :: "cell list" where
  "values_DDD = [Num 10, Num 11, Num 12, Num 13, Num 14, Num 15, Num 16]"

definition strength_D :: strength_row where
  "strength_D = \<lparr>country = ''D'', pwr_index = Some 0.5,
     scaled = [Some 0, Some 0, Some 0, Some 0, Some 0, Some 0, Some 0],
     strength_score = Some 0\<rparr>"

definition parallel_A :: growth_row where
  "parallel_A = \<lparr>country = ''A'', pwr_index = Some 0.2,
     scaled = [Some (- 1), Some (- 1), Some (- 1), Some (- 1), Some (- 1), Some (- 1), Some 0],
     strength_score = Some (- 6 / 7),
     growth_score = 1, growth_score_normalized = Some 0\<rparr>"

definition parallel_D :: growth_row where
  "parallel_D = \<lparr>country = ''D'', pwr_index = Some 0.5,
     scaled = [Some 0, Some 0, Some 0, Some 0, Some 0, Some 0, Some 0],
     strength_score = Some 0,
     growth_score = 1, growth_score_normalized = Some 0\<rparr>"

section \<open>Properties\<close>

subsection \<open>The strength scorer\<close>

lemma to_numeric_idem: "to_numeric p (to_numeric p c) = to_numeric p c"
  by (cases c) (auto split: option.splits)

lemma coerce_row_idem: "coerce_row p (coerce_row p r) = coerce_row p r"
  by (simp add: coerce_row_def to_numeric_idem)

lemma coerce_row_entity:
  "country (coerce_row p r) = country r"
  "pwr_index (coerce_row p r) = pwr_index r"
  "country_code (coerce_row p r) = country_code r"
  by (simp_all add: coerce_row_def)

lemma coerce_row_col:
  "col \<in> set power_columns \<Longrightarrow> col (coerce_row p r) = to_numeric p (col r)"
  by (auto simp: power_columns_def coerce_row_def)

lemma to_numeric_cases: "to_numeric p c = NaN \<or> (\<exists>x. to_numeric p c = Num x)"
  by (cases c) (auto split: option.splits)

lemma is_num_to_numeric: "is_num (to_numeric p c) = (\<not> isna (to_numeric p c))"
  by (cases c) (auto simp: isna_def split: option.splits)

lemma dropna_coerce:
  "dropna (map (coerce_row p) df) = map (coerce_row p) (filter (all_seven_numeric p) df)"
  unfolding dropna_def filter_map
  by (rule arg_cong[where f="map (coerce_row p)"], rule filter_cong)
     (auto simp: all_seven_numeric_def list_all_iff coerce_row_col is_num_to_numeric)

lemma mset_sort_values_desc: "mset (sort_values_desc key df) = mset df"
  by (simp add: sort_values_desc_def)

lemma set_sort_values_desc: "set (sort_values_desc key df) = set df"
  by (simp add: sort_values_desc_def)

lemma length_sort_values_desc: "length (sort_values_desc key df) = length df"
  by (simp add: sort_values_desc_def)

lemma sorted_sort_values_desc:
  "sorted_wrt (\<lambda>a b. key a \<ge> key b) (sort_values_desc key df)"
proof -
  have "sorted (map (\<lambda>r. - key r) (sort_key (\<lambda>r. - key r) df))"
    by (rule sorted_sort_key)
  then show ?thesis
    by (simp add: sort_values_desc_def sorted_map)
qed

lemma mset_sort_values_desc_nan: "mset (sort_values_desc_nan key df) = mset df"
  by (simp add: sort_values_desc_nan_def mset_sort_values_desc)

lemma set_sort_values_desc_nan: "set (sort_values_desc_nan key df) = set df"
  using mset_sort_values_desc_nan[of key df] by (rule mset_eq_setD)

lemma length_sort_values_desc_nan: "length (sort_values_desc_nan key df) = length df"
  using mset_sort_values_desc_nan[of key df] by (rule mset_eq_length)

lemma length_transform_row: "length (transform_row X row) = length row"
  by (simp add: transform_row_def)

lemma select_power_length: "row \<in> set (select_power df) \<Longrightarrow> length row = 7"
  by (auto simp: select_power_def power_columns_def)

lemma length_floats: "length (floats p r) = 7"
  by (simp add: floats_def power_columns_def)

lemma select_power_coerce: "select_power (map (coerce_row p) S) = map (floats p) S"
  by (simp add: select_power_def floats_def coerce_row_col)

lemma scored_row_coerce:
  "scored_row z (coerce_row p r) = scored_row z r"
  by (simp add: scored_row_def coerce_row_entity)

lemma map2_same: "map2 g (map h (map f xs)) (map k xs) = map (\<lambda>x. g (h (f x)) (k x)) xs"
  by (induction xs) auto

lemma create_strength_score_eq:
  "create_strength_score p df =
     (map (coerce_row p) df,
      if filter (all_seven_numeric p) df = [] then Inl ValueError
      else Inr (sort_values_desc_nan strength_score (scored p df)))"
proof -
  let ?S = "filter (all_seven_numeric p) df"
  have X: "select_power (dropna (map (coerce_row p) df)) = clean_matrix p df"
    by (simp add: dropna_coerce select_power_coerce clean_matrix_def)
  have Z: "map2 scored_row (map (transform_row (clean_matrix p df)) (clean_matrix p df))
             (dropna (map (coerce_row p) df)) = scored p df"
  proof -
    have "map2 scored_row (map (transform_row (clean_matrix p df)) (map (floats p) ?S))
            (map (coerce_row p) ?S)
          = map (\<lambda>r. scored_row (transform_row (clean_matrix p df) (floats p r)) (coerce_row p r)) ?S"
      by (rule map2_same)
    then show ?thesis
      by (simp add: dropna_coerce scored_def scored_row_coerce clean_matrix_def)
  qed
  show ?thesis
    unfolding create_strength_score_def Let_def X fit_transform_def
    by (simp add: Z) (simp add: clean_matrix_def)
qed

lemma mean_const:
  assumes "xs \<noteq> []" and "\<forall>y\<in>set xs. y = a"
  shows "mean xs = a"
proof -
  have "xs = replicate (length xs) a"
    using assms(2) by (simp add: replicate_length_same)
  then have "sum_list xs = real (length xs) * a"
    by (metis sum_list_replicate)
  with assms(1) show ?thesis
    by (simp add: mean_def)
qed

lemma sum_squares_zero:
  "(\<Sum>x\<leftarrow>xs. (x - m)\<^sup>2) = 0 \<longleftrightarrow> (\<forall>x\<in>set xs. x = (m::real))"
proof -
  have nn: "0 \<le> (\<Sum>x\<leftarrow>ys. (x - m)\<^sup>2)" for ys :: "real list"
    by (rule sum_list_nonneg) auto
  show ?thesis
  proof (induction xs)
    case Nil
    show ?case by simp
  next
    case (Cons a xs)
    have "(a - m)\<^sup>2 + (\<Sum>x\<leftarrow>xs. (x - m)\<^sup>2) = 0
            \<longleftrightarrow> (a - m)\<^sup>2 = 0 \<and> (\<Sum>x\<leftarrow>xs. (x - m)\<^sup>2) = 0"
      using nn[of xs] by (intro add_nonneg_eq_0_iff) simp_all
    with Cons show ?case by auto
  qed
qed

lemma var_nonneg: "0 \<le> var xs"
proof -
  have "0 \<le> (\<Sum>x\<leftarrow>xs. (x - mean xs)\<^sup>2)"
    by (rule sum_list_nonneg) auto
  then show ?thesis by (simp add: var_def mean_def[of "map _ _"])
qed

lemma var_zero_iff:
  assumes "xs \<noteq> []"
  shows "var xs = 0 \<longleftrightarrow> (\<forall>y\<in>set xs. y = hd xs)"
proof
  assume "var xs = 0"
  with assms have "(\<Sum>x\<leftarrow>xs. (x - mean xs)\<^sup>2) = 0"
    by (simp add: var_def mean_def)
  then have all: "\<forall>x\<in>set xs. x = mean xs"
    by (simp add: sum_squares_zero)
  with assms have "hd xs = mean xs" by simp
  with all show "\<forall>y\<in>set xs. y = hd xs" by simp
next
  assume c: "\<forall>y\<in>set xs. y = hd xs"
  with assms have "mean xs = hd xs" by (rule mean_const)
  with c have "(\<Sum>x\<leftarrow>xs. (x - mean xs)\<^sup>2) = 0"
    by (simp add: sum_squares_zero)
  then show "var xs = 0" by (simp add: var_def mean_def)
qed

lemma scale_of_nonzero: "scale_of xs \<noteq> 0"
  by (simp add: scale_of_def)

lemma transform_row_nth:
  "j < length row \<Longrightarrow>
   transform_row X row ! j = Some ((row ! j - mean (column j X)) / scale_of (column j X))"
  by (simp add: transform_row_def float_div_def scale_of_nonzero)

lemma transform_row_Some:
  "transform_row X row
     = map Some (map (\<lambda>j. (row ! j - mean (column j X)) / scale_of (column j X))
                   [0..<length row])"
  by (simp add: transform_row_def float_div_def scale_of_nonzero)

lemma row_mean_Some:
  assumes "zs \<noteq> []"
  shows "row_mean (map Some zs) = Some (sum_list zs / real (length zs))"
proof -
  have "List.map_filter id (map Some zs) = zs"
    by (induction zs) (simp_all add: map_filter_simps)
  with assms show ?thesis
    by (cases zs) (simp_all add: row_mean_def)
qed

lemma transform_constant_column:
  assumes "row \<in> set X" and "j < length row" and "\<forall>y\<in>set (column j X). y = hd (column j X)"
  shows "transform_row X row ! j = Some 0"
proof -
  from assms(1) have ne: "column j X \<noteq> []" by (auto simp: column_def)
  from assms(1) have "row ! j \<in> set (column j X)" by (auto simp: column_def)
  with assms(3) have "row ! j = hd (column j X)" by simp
  moreover from ne assms(3) have "mean (column j X) = hd (column j X)" by (rule mean_const)
  ultimately show ?thesis using assms(2) by (simp add: transform_row_nth)
qed

lemma transform_varying_column:
  assumes "row \<in> set X" and "j < length row" and "\<not> (\<forall>y\<in>set (column j X). y = hd (column j X))"
  shows "0 < sqrt (var (column j X))"
    and "transform_row X row ! j
           = Some ((row ! j - mean (column j X)) / sqrt (var (column j X)))"
proof -
  from assms(1) have ne: "column j X \<noteq> []" by (auto simp: column_def)
  with assms(3) have "var (column j X) \<noteq> 0" by (simp add: var_zero_iff)
  with var_nonneg[of "column j X"] have "0 < var (column j X)" by simp
  then show pos: "0 < sqrt (var (column j X))" by simp
  then show "transform_row X row ! j
           = Some ((row ! j - mean (column j X)) / sqrt (var (column j X)))"
    using assms(2) by (simp add: transform_row_nth scale_of_def)
qed

lemma scored_fields:
  "o' \<in> set (scored p df) \<Longrightarrow>
   \<exists>r\<in>set df. all_seven_numeric p r \<and> country o' = country r \<and> pwr_index o' = pwr_index r
      \<and> scaled o' = transform_row (clean_matrix p df) (floats p r)
      \<and> strength_score o' = row_mean (scaled o')"
  by (auto simp: scored_def scored_row_def)

lemma scored_countries:
  "map country (scored p df) = map country (filter (all_seven_numeric p) df)"
  by (simp add: scored_def scored_row_def)

lemma scored_scaled:
  "map scaled (scored p df) = map (transform_row (clean_matrix p df)) (clean_matrix p df)"
  by (simp add: scored_def scored_row_def clean_matrix_def)

lemma score_out:
  assumes "snd (create_strength_score p df) = Inr out"
  shows "filter (all_seven_numeric p) df \<noteq> []"
    and "out = sort_values_desc_nan strength_score (scored p df)"
  using assms by (auto simp: create_strength_score_eq split: if_splits)

text \<open>
  Claim C5. When the scorer returns a table, its countries are the countries of the input rows
  whose seven indicators all coerce to numbers, each as often as it has such a row, so a row
  with a missing indicator contributes nothing. Every output row carries the name and power
  index of such an input row and its seven standardized values, each of them a number, not
  NaN; its \<open>strength_score\<close> is a number too, their arithmetic mean, the sum divided by
  seven.
\<close>

theorem scorer_complete_cases:
  assumes "snd (create_strength_score p df) = Inr out"
  shows "mset (map country out) = mset (map country (filter (all_seven_numeric p) df))
       \<and> (\<forall>o'\<in>set out. \<exists>r\<in>set df. all_seven_numeric p r
             \<and> country o' = country r \<and> pwr_index o' = pwr_index r
             \<and> scaled o' = transform_row (clean_matrix p df) (floats p r)
             \<and> length (scaled o') = 7
             \<and> (\<exists>zs. scaled o' = map Some zs \<and> strength_score o' = Some (sum_list zs / 7)))"
proof -
  from assms have out: "out = sort_values_desc_nan strength_score (scored p df)"
    by (rule score_out)
  have "mset (map country out) = image_mset country (mset (scored p df))"
    by (simp add: out mset_sort_values_desc_nan)
  also have "\<dots> = mset (map country (scored p df))" by simp
  finally have 1: "mset (map country out) = mset (map country (filter (all_seven_numeric p) df))"
    by (simp only: scored_countries)
  have 2: "\<exists>r\<in>set df. all_seven_numeric p r
             \<and> country o' = country r \<and> pwr_index o' = pwr_index r
             \<and> scaled o' = transform_row (clean_matrix p df) (floats p r)
             \<and> length (scaled o') = 7
             \<and> (\<exists>zs. scaled o' = map Some zs \<and> strength_score o' = Some (sum_list zs / 7))"
    if "o' \<in> set out" for o'
  proof -
    from that have "o' \<in> set (scored p df)" by (simp add: out set_sort_values_desc_nan)
    from scored_fields[OF this] obtain r where r: "r \<in> set df" "all_seven_numeric p r"
      "country o' = country r" "pwr_index o' = pwr_index r"
      "scaled o' = transform_row (clean_matrix p df) (floats p r)"
      "strength_score o' = row_mean (scaled o')" by blast
    from r(5) have len: "length (scaled o') = 7"
      by (simp add: length_transform_row length_floats)
    define zs where "zs = map (\<lambda>j. (floats p r ! j - mean (column j (clean_matrix p df)))
                                 / scale_of (column j (clean_matrix p df)))
                          [0..<length (floats p r)]"
    have zs: "scaled o' = map Some zs"
      unfolding zs_def r(5) by (rule transform_row_Some)
    with len have l: "length zs = 7" by simp
    then have "zs \<noteq> []" by auto
    from row_mean_Some[OF this] have "strength_score o' = Some (sum_list zs / 7)"
      by (simp add: r(6) zs l)
    with zs have "\<exists>zs. scaled o' = map Some zs \<and> strength_score o' = Some (sum_list zs / 7)"
      by blast
    with r len show ?thesis by blast
  qed
  from 1 2 show ?thesis by blast
qed

lemma column_clean_ne: "x \<in> set X \<Longrightarrow> column j X \<noteq> []"
  by (auto simp: column_def)

text \<open>
  Claim C8. Let \<open>X\<close> be the matrix of the surviving rows and \<open>j\<close> one of its seven columns.
  The standardized values of the output are the rows of \<open>X\<close> transformed. In a column whose
  values are all equal every standardized value is the number 0: the division by the
  standard deviation 0, which would give NaN, does not take place. In any other column the
  standard deviation is positive and the standardized value is the number obtained as the
  value minus the column mean, divided by the square root of the variance, where the
  variance is the sum of the squared deviations divided by the number of rows.
\<close>

theorem standardization_of_columns:
  assumes "snd (create_strength_score p df) = Inr out"
    and "X = clean_matrix p df" and "j < 7"
  shows "mset (map scaled out) = mset (map (transform_row X) X)
       \<and> (\<forall>x\<in>set X.
             (constant_column (column j X) \<longrightarrow> transform_row X x ! j = Some 0)
           \<and> (\<not> constant_column (column j X) \<longrightarrow>
                 0 < sqrt (var (column j X))
               \<and> transform_row X x ! j
                   = Some ((x ! j - mean (column j X)) / sqrt (var (column j X)))))
       \<and> mean (column j X) = sum_list (column j X) / real (length X)
       \<and> var (column j X) = (\<Sum>y\<leftarrow>column j X. (y - mean (column j X))\<^sup>2) / real (length X)"
proof -
  from assms(1) have out: "out = sort_values_desc_nan strength_score (scored p df)"
    by (rule score_out)
  have "mset (map scaled out) = image_mset scaled (mset (scored p df))"
    by (simp add: out mset_sort_values_desc_nan)
  also have "\<dots> = mset (map scaled (scored p df))" by simp
  finally have 1: "mset (map scaled out) = mset (map (transform_row X) X)"
    by (simp only: scored_scaled assms(2))
  have 2: "(constant_column (column j X) \<longrightarrow> transform_row X x ! j = Some 0)
           \<and> (\<not> constant_column (column j X) \<longrightarrow>
                 0 < sqrt (var (column j X))
               \<and> transform_row X x ! j
                   = Some ((x ! j - mean (column j X)) / sqrt (var (column j X))))"
    if x: "x \<in> set X" for x
  proof -
    from x have "length x = 7" by (auto simp: assms(2) clean_matrix_def length_floats)
    with assms(3) have j: "j < length x" by simp
    have c: "constant_column (column j X) = (\<forall>y\<in>set (column j X). y = hd (column j X))"
      by (simp add: constant_column_def list_all_iff)
    show ?thesis
      using transform_constant_column[OF x j] transform_varying_column[OF x j]
      unfolding c by blast
  qed
  have 3: "mean (column j X) = sum_list (column j X) / real (length X)"
    by (simp add: mean_def column_def)
  have 4: "var (column j X) = (\<Sum>y\<leftarrow>column j X. (y - mean (column j X))\<^sup>2) / real (length X)"
    by (simp add: var_def mean_def[of "map _ _"] column_def)
  from 1 2 3 4 show ?thesis by blast
qed

lemma create_strength_score_raises_iff:
  "(snd (create_strength_score p df) = Inl ValueError) = (filter (all_seven_numeric p) df = [])"
  "snd (create_strength_score p df) = Inr out \<Longrightarrow>
     filter (all_seven_numeric p) df \<noteq> [] \<and> length out = length (filter (all_seven_numeric p) df)"
  by (auto simp: create_strength_score_eq length_sort_values_desc_nan scored_def
           split: if_splits)

lemma all_seven_numeric_coerce:
  "all_seven_numeric p (coerce_row p r) = all_seven_numeric p r"
  by (simp add: all_seven_numeric_def list_all_iff coerce_row_col to_numeric_idem)

lemma floats_coerce: "floats p (coerce_row p r) = floats p r"
  by (simp add: floats_def coerce_row_col to_numeric_idem)

lemma survivors_coerce:
  "filter (all_seven_numeric p) (map (coerce_row p) df)
     = map (coerce_row p) (filter (all_seven_numeric p) df)"
  by (simp add: filter_map o_def all_seven_numeric_coerce)

lemma clean_matrix_coerce: "clean_matrix p (map (coerce_row p) df) = clean_matrix p df"
  by (simp add: clean_matrix_def survivors_coerce floats_coerce)

lemma scored_coerce: "scored p (map (coerce_row p) df) = scored p df"
  by (simp add: scored_def clean_matrix_coerce survivors_coerce floats_coerce scored_row_coerce)

lemma create_strength_score_again:
  "create_strength_score p (fst (create_strength_score p df)) = create_strength_score p df"
  by (simp add: create_strength_score_eq scored_coerce survivors_coerce coerce_row_idem)

subsection \<open>A second run\<close>

text \<open>
  Claim C10. Running the three steps on the country table as a first run left it (the
  indicator columns coerced in place), with the same budget table and target year, gives
  the same country table and the same result, ranking or exception, as the first run.
  That two runs on equal inputs agree is immediate, the steps being functions of their
  inputs.
\<close>

theorem pipeline_rerun:
  "pipeline p (fst (pipeline p military_strength defense_budget target_year))
      defense_budget target_year
   = pipeline p military_strength defense_budget target_year"
proof -
  have f: "fst (pipeline p military_strength defense_budget target_year)
             = fst (create_strength_score p military_strength)"
    by (simp add: pipeline_def Let_def split: prod.splits sum.splits)
  show ?thesis
    unfolding f
    by (simp add: pipeline_def[of p "fst _"] create_strength_score_again)
       (simp add: pipeline_def)
qed

subsection \<open>The growth trajectory estimator\<close>

lemma growth_of_country_eq:
  "growth_of_country mapping budget_df c =
     (case lookup_values mapping budget_df c of
        None \<Rightarrow> Inr 0
      | Some (object_dtype, values) \<Rightarrow> trend object_dtype values)"
  by (simp add: growth_of_country_def lookup_values_def Let_def split: option.splits list.splits)

lemma length_masked: "length (masked xs (map P xs)) = length (filter P xs)"
  by (induction xs) (auto simp: masked_def)

lemma count_valid:
  "length (filter id (valid_indices values)) = length (response values)"
  by (simp add: response_def valid_indices_def length_masked filter_map o_def)

lemma trend_eq:
  "trend object_dtype values =
     (if object_dtype then Inl TypeError
      else if 5 < length (response values) then Inr (coef (regressor values) (response values))
      else Inr 0)"
proof -
  have v: "map Not (map isna values) = valid_indices values"
    by (simp add: valid_indices_def)
  show ?thesis
  proof (cases object_dtype)
    case True
    then show ?thesis by (simp add: trend_def np_isnan_def)
  next
    case False
    then have "trend object_dtype values =
      (if 5 < length (filter id (valid_indices values))
       then Inr (coef (map real (masked [0..<length values] (valid_indices values)))
                  (map the_float (masked values (valid_indices values))))
       else Inr 0)"
      unfolding trend_def np_isnan_def Let_def v[symmetric] by simp
    then show ?thesis
      using False by (simp add: count_valid regressor_def response_def)
  qed
qed

lemma series_min_eq: "xs \<noteq> [] \<Longrightarrow> series_min xs = Some (Min (set xs))"
proof (cases xs)
  case (Cons x ys)
  then show ?thesis using Min.set_eq_fold[of x ys] by simp
qed simp

lemma series_max_eq: "xs \<noteq> [] \<Longrightarrow> series_max xs = Some (Max (set xs))"
proof (cases xs)
  case (Cons x ys)
  then show ?thesis using Max.set_eq_fold[of x ys] by simp
qed simp

lemma length_normalize: "length (normalize gs) = length gs"
  by (simp add: normalize_def split: option.splits)

lemma normalize_eq:
  assumes "gs \<noteq> []"
  shows "normalize gs =
     map (\<lambda>g. Some (if Max (set gs) = Min (set gs) then 0
                     else (g - Min (set gs)) / (Max (set gs) - Min (set gs)))) gs"
proof -
  from assms have "Min (set gs) \<le> Max (set gs)"
    by (simp add: Min_le_iff)
  then have "(Min (set gs) < Max (set gs)) = (Max (set gs) \<noteq> Min (set gs))" by auto
  then show ?thesis
    using assms by (auto simp: normalize_def series_min_eq series_max_eq float_div_def)
qed

lemma analyze_length:
  "length (analyze_growth_trajectory ms strength_df budget_df) = length strength_df"
  by (simp add: analyze_growth_trajectory_def Let_def length_normalize)

lemma analyze_nth:
  assumes "i < length strength_df"
  shows "analyze_growth_trajectory ms strength_df budget_df ! i =
     with_growth (strength_df ! i)
       (growth_score_of (country_mapping ms) budget_df (country (strength_df ! i)),
        normalize (map (growth_score_of (country_mapping ms) budget_df) (map country strength_df)) ! i)"
  using assms by (simp add: analyze_growth_trajectory_def Let_def length_normalize)

lemma analyze_growth_scores:
  "map growth_score (analyze_growth_trajectory ms strength_df budget_df)
     = map (growth_score_of (country_mapping ms) budget_df) (map country strength_df)"
  by (rule nth_equalityI) (simp_all add: analyze_length analyze_nth with_growth_def)

lemma analyze_normalized:
  "map growth_score_normalized (analyze_growth_trajectory ms strength_df budget_df)
     = normalize (map growth_score (analyze_growth_trajectory ms strength_df budget_df))"
  unfolding analyze_growth_scores
  by (rule nth_equalityI) (simp_all add: analyze_length analyze_nth with_growth_def length_normalize)

text \<open>
  Claim C7. The raw growth scores of the output are those computed country by country. With
  \<open>G\<close> the list of all of them, a row has as \<open>growth_score_normalized\<close> the number 0 when
  the maximum of \<open>G\<close> equals its minimum, the division by the difference 0 not taking
  place, and otherwise the number obtained as the growth score minus the minimum, divided
  by the maximum minus the minimum. No value is NaN and the function raises nothing.
\<close>

theorem growth_normalization:
  assumes "out = analyze_growth_trajectory ms strength_df budget_df"
    and "G = map growth_score out"
  shows "G = map (growth_score_of (country_mapping ms) budget_df) (map country strength_df)
       \<and> (\<forall>r\<in>set out.
             (Max (set G) = Min (set G) \<longrightarrow> growth_score_normalized r = Some 0)
           \<and> (Max (set G) \<noteq> Min (set G) \<longrightarrow>
                growth_score_normalized r
                  = Some ((growth_score r - Min (set G)) / (Max (set G) - Min (set G)))))"
proof -
  have 1: "G = map (growth_score_of (country_mapping ms) budget_df) (map country strength_df)"
    by (simp only: assms analyze_growth_scores)
  have 2: "(Max (set G) = Min (set G) \<longrightarrow> growth_score_normalized r = Some 0)
           \<and> (Max (set G) \<noteq> Min (set G) \<longrightarrow>
                growth_score_normalized r
                  = Some ((growth_score r - Min (set G)) / (Max (set G) - Min (set G))))"
    if "r \<in> set out" for r
  proof -
    from that obtain i where i: "i < length out" "r = out ! i"
      by (auto simp: in_set_conv_nth)
    then have ne: "G \<noteq> []" by (auto simp: assms(2))
    have "map growth_score_normalized out = normalize G"
      by (simp only: assms analyze_normalized)
    then have "growth_score_normalized r = normalize G ! i"
      using i by (metis nth_map)
    moreover have "G ! i = growth_score r" using i by (simp add: assms(2))
    moreover have "i < length G" using i by (simp add: assms(2))
    ultimately show ?thesis
      by (simp add: normalize_eq[OF ne])
  qed
  from 1 2 show ?thesis by blast
qed

text \<open>
  Claim C9. The estimator returns one row for every country it is given, in the same order,
  whatever happens for the others: the growth score of a country is the score of that
  country alone. It is 0 when the body of the \<^verbatim>\<open>try\<close> raises for that country, and 0
  when the lookup does not know the country name.
\<close>

theorem per_country_recovery:
  assumes "out = analyze_growth_trajectory ms strength_df budget_df"
    and "mapping = country_mapping ms"
  shows "length out = length strength_df
       \<and> (\<forall>i<length strength_df.
             country (out ! i) = country (strength_df ! i)
           \<and> growth_score (out ! i) = growth_score_of mapping budget_df (country (strength_df ! i))
           \<and> (isl (growth_of_country mapping budget_df (country (strength_df ! i)))
                \<longrightarrow> growth_score (out ! i) = 0)
           \<and> (mapping (country (strength_df ! i)) = None \<longrightarrow> growth_score (out ! i) = 0))"
proof -
  have "isl (growth_of_country mapping budget_df c) \<Longrightarrow> growth_score_of mapping budget_df c = 0" for c
    by (cases "growth_of_country mapping budget_df c") (simp_all add: growth_score_of_def)
  moreover have "mapping c = None \<Longrightarrow> growth_score_of mapping budget_df c = 0" for c
    by (simp add: growth_score_of_def growth_of_country_def)
  ultimately show ?thesis
    by (simp add: assms analyze_length analyze_nth with_growth_def)
qed

subsection \<open>The projection ranker\<close>

lemma sorted_sort_values_desc_nan:
  "sorted_wrt (\<lambda>a b. desc_nan_last (key a) (key b)) (sort_values_desc_nan key df)"
proof -
  let ?S = "sort_values_desc (\<lambda>r. the (key r)) (filter (\<lambda>r. key r \<noteq> None) df)"
  let ?N = "filter (\<lambda>r. key r = None) df"
  have S: "key r \<noteq> None" if "r \<in> set ?S" for r
    using that by (simp add: set_sort_values_desc)
  have "sorted_wrt (\<lambda>a b. the (key b) \<le> the (key a)) ?S"
    by (rule sorted_sort_values_desc)
  then have 1: "sorted_wrt (\<lambda>a b. desc_nan_last (key a) (key b)) ?S"
  proof (rule sorted_wrt_mono_rel[rotated])
    fix x y assume "x \<in> set ?S" "y \<in> set ?S" "the (key y) \<le> the (key x)"
    with S[of x] S[of y] show "desc_nan_last (key x) (key y)"
      by (cases "key x"; cases "key y") simp_all
  qed
  have "sorted_wrt (\<lambda>a b. True) ?N" by (induction df) simp_all
  then have 2: "sorted_wrt (\<lambda>a b. desc_nan_last (key a) (key b)) ?N"
  proof (rule sorted_wrt_mono_rel[rotated])
    fix x y assume "x \<in> set ?N" "y \<in> set ?N"
    then show "desc_nan_last (key x) (key y)" by simp
  qed
  have 3: "desc_nan_last (key x) (key y)" if "x \<in> set ?S" "y \<in> set ?N" for x y
    using S[OF that(1)] that(2) by (cases "key x") simp_all
  from 1 2 3 show ?thesis
    unfolding sort_values_desc_nan_def sorted_wrt_append by blast
qed

text \<open>
  Claim C2. The weights are 0.5 and 0.5 when the target year is more than ten years after
  2024, and 0.7 and 0.3 otherwise: 0.7 and 0.3 for 2034, 0.5 and 0.5 for 2035. The ranking
  returned holds the rows of the input, each with its \<open>projection_score\<close> = strength weight
  times \<open>strength_score\<close> plus growth weight times \<open>growth_score_normalized\<close> minus 0.2
  times \<open>pwr_index\<close> (NaN where one of the three is NaN), sorted by that score, largest
  first, rows without a score last.
\<close>

theorem projection_ranking:
  "(10 < target_year - 2024 \<longrightarrow>
       strength_weight target_year = 0.5 \<and> growth_weight target_year = 0.5)
 \<and> (\<not> 10 < target_year - 2024 \<longrightarrow>
       strength_weight target_year = 0.7 \<and> growth_weight target_year = 0.3)
 \<and> strength_weight 2034 = 0.7 \<and> growth_weight 2034 = 0.3
 \<and> strength_weight 2035 = 0.5 \<and> growth_weight 2035 = 0.5
 \<and> mset (snd (predict_future_ranking df target_year)) = mset (map (with_projection target_year) df)
 \<and> (\<forall>r\<in>set (snd (predict_future_ranking df target_year)).
       projection_score r =
         (case strength_score r of
            None \<Rightarrow> None
          | Some strength \<Rightarrow>
              (case growth_score_normalized r of
                 None \<Rightarrow> None
               | Some growth \<Rightarrow>
                   (case pwr_index r of
                      None \<Rightarrow> None
                    | Some pwr \<Rightarrow>
                        Some (strength_weight target_year * strength
                              + growth_weight target_year * growth - 0.2 * pwr)))))
 \<and> sorted_wrt (\<lambda>a b. desc_nan_last (projection_score a) (projection_score b))
       (snd (predict_future_ranking df target_year))"
proof -
  let ?out = "snd (predict_future_ranking df target_year)"
  have w: "(10 < target_year - 2024 \<longrightarrow>
       strength_weight target_year = 0.5 \<and> growth_weight target_year = 0.5)
     \<and> (\<not> 10 < target_year - 2024 \<longrightarrow>
       strength_weight target_year = 0.7 \<and> growth_weight target_year = 0.3)
     \<and> strength_weight 2034 = 0.7 \<and> growth_weight 2034 = 0.3
     \<and> strength_weight 2035 = 0.5 \<and> growth_weight 2035 = 0.5"
    by (simp add: strength_weight_def growth_weight_def)
  have out: "?out = sort_values_desc_nan projection_score (map (with_projection target_year) df)"
    by (simp add: predict_future_ranking_def Let_def)
  have m: "mset ?out = mset (map (with_projection target_year) df)"
    unfolding out by (rule mset_sort_values_desc_nan)
  have s: "projection_score r =
         (case strength_score r of
            None \<Rightarrow> None
          | Some strength \<Rightarrow>
              (case growth_score_normalized r of
                 None \<Rightarrow> None
               | Some growth \<Rightarrow>
                   (case pwr_index r of
                      None \<Rightarrow> None
                    | Some pwr \<Rightarrow>
                        Some (strength_weight target_year * strength
                              + growth_weight target_year * growth - 0.2 * pwr))))"
    if "r \<in> set ?out" for r
  proof -
    from that have "r \<in># mset (map (with_projection target_year) df)"
      unfolding m[symmetric] by simp
    then have "r \<in> set (map (with_projection target_year) df)" by simp
    then obtain g where "r = with_projection target_year g"
      unfolding set_map by blast
    then show ?thesis
      by (simp add: with_projection_def score_def split: option.splits)
  qed
  have o: "sorted_wrt (\<lambda>a b. desc_nan_last (projection_score a) (projection_score b)) ?out"
    unfolding out by (rule sorted_sort_values_desc_nan)
  from w m s o show ?thesis by blast
qed

subsection \<open>The fitted slope\<close>

lemma sum_list_centered: "xs \<noteq> [] \<Longrightarrow> (\<Sum>x\<leftarrow>xs. x - mean xs) = 0"
  by (simp add: sum_list_subtractf sum_list_triv mean_def)

lemma coef_normal_equation:
  assumes "length X = length y"
  shows "(\<Sum>(x, v)\<leftarrow>zip X y. (x - mean X) * (v - mean y))
           = coef X y * (\<Sum>x\<leftarrow>X. (x - mean X)\<^sup>2)"
proof (cases "(\<Sum>x\<leftarrow>X. (x - mean X)\<^sup>2) = 0")
  case False
  then show ?thesis by (simp add: coef_def)
next
  case True
  then have c: "\<forall>x\<in>set X. x = mean X" by (simp add: sum_squares_zero)
  have "map (\<lambda>(x, v). (x - mean X) * (v - mean y)) (zip X y) = map (\<lambda>p. 0) (zip X y)"
  proof (rule map_cong[OF refl])
    fix p assume "p \<in> set (zip X y)"
    then have "fst p \<in> set X" by (metis prod.collapse set_zip_leftD)
    with c have "fst p = mean X" by blast
    then show "(case p of (x, v) \<Rightarrow> (x - mean X) * (v - mean y)) = 0"
      by (cases p) simp
  qed
  then have "(\<Sum>(x, v)\<leftarrow>zip X y. (x - mean X) * (v - mean y)) = (\<Sum>p\<leftarrow>zip X y. 0)"
    by (rule arg_cong)
  with True show ?thesis by simp
qed

lemma least_squares:
  assumes "length X = length y"
  shows "(\<Sum>(x, v)\<leftarrow>zip X y. (v - (mean y - coef X y * mean X + coef X y * x))\<^sup>2)
           \<le> (\<Sum>(x, v)\<leftarrow>zip X y. (v - (a + b * x))\<^sup>2)"
proof (cases "X = []")
  case True
  then show ?thesis by simp
next
  case False
  with assms have ne: "y \<noteq> []" by auto
  define ps where "ps = zip X y"
  define e where "e = (\<lambda>p::real \<times> real. (snd p - mean y) - coef X y * (fst p - mean X))"
  define g where "g = (\<lambda>p::real \<times> real. (mean y - a - b * mean X) + (coef X y - b) * (fst p - mean X))"
  have fs: "map fst ps = X" "map snd ps = y"
    using assms by (simp_all add: ps_def)
  have sx: "(\<Sum>p\<leftarrow>ps. fst p - mean X) = 0"
    using sum_list_centered[OF False] by (simp add: fs[symmetric] o_def)
  have sy: "(\<Sum>p\<leftarrow>ps. snd p - mean y) = 0"
    using sum_list_centered[OF ne] by (simp add: fs[symmetric] o_def)
  have sxx: "(\<Sum>p\<leftarrow>ps. (fst p - mean X)\<^sup>2) = (\<Sum>x\<leftarrow>X. (x - mean X)\<^sup>2)"
    by (simp add: fs(1)[symmetric] o_def)
  have sxy: "(\<Sum>p\<leftarrow>ps. (fst p - mean X) * (snd p - mean y))
               = coef X y * (\<Sum>p\<leftarrow>ps. (fst p - mean X)\<^sup>2)"
    using coef_normal_equation[OF assms] unfolding sxx
    by (simp add: ps_def case_prod_unfold)
  have "(\<Sum>p\<leftarrow>ps. e p)
          = (\<Sum>p\<leftarrow>ps. snd p - mean y) - (\<Sum>p\<leftarrow>ps. coef X y * (fst p - mean X))"
    unfolding e_def by (rule sum_list_subtractf)
  also have "(\<Sum>p\<leftarrow>ps. coef X y * (fst p - mean X)) = coef X y * (\<Sum>p\<leftarrow>ps. fst p - mean X)"
    by (rule sum_list_const_mult)
  finally have e0: "(\<Sum>p\<leftarrow>ps. e p) = 0"
    by (simp add: sx sy)
  have "(\<Sum>p\<leftarrow>ps. e p * (fst p - mean X))
          = (\<Sum>p\<leftarrow>ps. (fst p - mean X) * (snd p - mean y) - coef X y * (fst p - mean X)\<^sup>2)"
    unfolding e_def
    by (intro arg_cong[where f=sum_list] map_cong) (auto simp: algebra_simps power2_eq_square)
  also have "\<dots> = (\<Sum>p\<leftarrow>ps. (fst p - mean X) * (snd p - mean y))
                    - (\<Sum>p\<leftarrow>ps. coef X y * (fst p - mean X)\<^sup>2)"
    by (rule sum_list_subtractf)
  also have "(\<Sum>p\<leftarrow>ps. coef X y * (fst p - mean X)\<^sup>2)
               = coef X y * (\<Sum>p\<leftarrow>ps. (fst p - mean X)\<^sup>2)"
    by (rule sum_list_const_mult)
  finally have e1: "(\<Sum>p\<leftarrow>ps. e p * (fst p - mean X)) = 0"
    by (simp add: sxy)
  have "(\<Sum>p\<leftarrow>ps. e p * g p)
          = (\<Sum>p\<leftarrow>ps. (mean y - a - b * mean X) * e p
                        + (coef X y - b) * (e p * (fst p - mean X)))"
    unfolding g_def
    by (intro arg_cong[where f=sum_list] map_cong) (auto simp: algebra_simps)
  also have "\<dots> = (\<Sum>p\<leftarrow>ps. (mean y - a - b * mean X) * e p)
                    + (\<Sum>p\<leftarrow>ps. (coef X y - b) * (e p * (fst p - mean X)))"
    by (rule sum_list_addf)
  also have "\<dots> = (mean y - a - b * mean X) * (\<Sum>p\<leftarrow>ps. e p)
                    + (coef X y - b) * (\<Sum>p\<leftarrow>ps. e p * (fst p - mean X))"
    by (simp only: sum_list_const_mult)
  finally have eg: "(\<Sum>p\<leftarrow>ps. e p * g p) = 0"
    by (simp add: e0 e1)
  have "(\<Sum>p\<leftarrow>ps. (e p + g p)\<^sup>2)
          = (\<Sum>p\<leftarrow>ps. ((e p)\<^sup>2 + (g p)\<^sup>2) + 2 * (e p * g p))"
    by (intro arg_cong[where f=sum_list] map_cong) (auto simp: power2_sum)
  also have "\<dots> = (\<Sum>p\<leftarrow>ps. (e p)\<^sup>2 + (g p)\<^sup>2) + (\<Sum>p\<leftarrow>ps. 2 * (e p * g p))"
    by (rule sum_list_addf)
  also have "(\<Sum>p\<leftarrow>ps. (e p)\<^sup>2 + (g p)\<^sup>2) = (\<Sum>p\<leftarrow>ps. (e p)\<^sup>2) + (\<Sum>p\<leftarrow>ps. (g p)\<^sup>2)"
    by (rule sum_list_addf)
  also have "(\<Sum>p\<leftarrow>ps. 2 * (e p * g p)) = 2 * (\<Sum>p\<leftarrow>ps. e p * g p)"
    by (rule sum_list_const_mult)
  finally have sq: "(\<Sum>p\<leftarrow>ps. (e p + g p)\<^sup>2) = (\<Sum>p\<leftarrow>ps. (e p)\<^sup>2) + (\<Sum>p\<leftarrow>ps. (g p)\<^sup>2)"
    by (simp add: eg)
  have "0 \<le> (\<Sum>p\<leftarrow>ps. (g p)\<^sup>2)"
    by (rule sum_list_nonneg) auto
  with sq have le: "(\<Sum>p\<leftarrow>ps. (e p)\<^sup>2) \<le> (\<Sum>p\<leftarrow>ps. (e p + g p)\<^sup>2)"
    by simp
  have l: "(\<Sum>(x, v)\<leftarrow>zip X y. (v - (mean y - coef X y * mean X + coef X y * x))\<^sup>2)
             = (\<Sum>p\<leftarrow>ps. (e p)\<^sup>2)"
    unfolding ps_def e_def
    by (intro arg_cong[where f=sum_list] map_cong) (auto simp: algebra_simps)
  have r: "(\<Sum>(x, v)\<leftarrow>zip X y. (v - (a + b * x))\<^sup>2) = (\<Sum>p\<leftarrow>ps. (e p + g p)\<^sup>2)"
    unfolding ps_def e_def g_def
    by (intro arg_cong[where f=sum_list] map_cong) (auto simp: algebra_simps)
  from le show ?thesis by (simp only: l r)
qed

lemma masked_nth:
  assumes "length xs = length m"
  shows "masked xs m = map (\<lambda>i. xs ! i) (filter (\<lambda>i. m ! i) [0..<length xs])"
proof -
  have z: "zip xs m = map (\<lambda>i. (xs ! i, m ! i)) [0..<length xs]"
    by (rule nth_equalityI) (simp_all add: assms)
  show ?thesis
    unfolding masked_def z by (simp add: filter_map o_def)
qed

lemma regressor_eq:
  "regressor values = map real (filter (\<lambda>i. \<not> isna (values ! i)) [0..<length values])"
proof -
  have "masked [0..<length values] (valid_indices values)
        = map (\<lambda>i. [0..<length values] ! i)
            (filter (\<lambda>i. valid_indices values ! i) [0..<length [0..<length values]])"
    by (rule masked_nth) (simp add: valid_indices_def)
  also have "\<dots> = map (\<lambda>i. i) (filter (\<lambda>i. valid_indices values ! i) [0..<length values])"
    by (intro map_cong) auto
  also have "filter (\<lambda>i. valid_indices values ! i) [0..<length values]
             = filter (\<lambda>i. \<not> isna (values ! i)) [0..<length values]"
    by (intro filter_cong) (auto simp: valid_indices_def)
  finally show ?thesis by (simp add: regressor_def)
qed

lemma response_eq:
  "response values
     = map (\<lambda>i. the_float (values ! i)) (filter (\<lambda>i. \<not> isna (values ! i)) [0..<length values])"
proof -
  have "masked values (valid_indices values)
        = map (\<lambda>i. values ! i) (filter (\<lambda>i. valid_indices values ! i) [0..<length values])"
    by (rule masked_nth) (simp add: valid_indices_def)
  also have "filter (\<lambda>i. valid_indices values ! i) [0..<length values]
             = filter (\<lambda>i. \<not> isna (values ! i)) [0..<length values]"
    by (intro filter_cong) (auto simp: valid_indices_def)
  finally show ?thesis by (simp add: response_def o_def)
qed

lemma mean_affine:
  assumes "X \<noteq> []"
  shows "mean (map (\<lambda>x. a + m * x) X) = a + m * mean X"
proof -
  have "sum_list (map (\<lambda>x. a + m * x) X) = real (length X) * a + m * sum_list X"
    by (induction X) (simp_all add: algebra_simps)
  with assms show ?thesis
    by (simp add: mean_def field_simps)
qed

lemma coef_linear:
  assumes "\<exists>x\<in>set X. x \<noteq> mean X"
  shows "coef X (map (\<lambda>x. a + m * x) X) = m"
proof -
  from assms have ne: "X \<noteq> []" by auto
  let ?S = "\<Sum>x\<leftarrow>X. (x - mean X)\<^sup>2"
  have S: "?S \<noteq> 0" using assms by (simp add: sum_squares_zero)
  have z: "zip X (map (\<lambda>x. a + m * x) X) = map (\<lambda>x. (x, a + m * x)) X"
    by (induction X) simp_all
  have "(\<Sum>(x, v)\<leftarrow>zip X (map (\<lambda>x. a + m * x) X).
           (x - mean X) * (v - mean (map (\<lambda>x. a + m * x) X)))
        = (\<Sum>x\<leftarrow>X. m * (x - mean X)\<^sup>2)"
    unfolding z mean_affine[OF ne]
    by (simp add: o_def algebra_simps power2_eq_square)
  also have "\<dots> = m * ?S" by (simp add: sum_list_const_mult)
  finally show ?thesis using S by (simp add: coef_def)
qed

lemma distinct_not_constant:
  assumes "distinct X" and "2 \<le> length X"
  shows "\<exists>x\<in>set X. x \<noteq> (c::real)"
proof (rule ccontr)
  assume "\<not> (\<exists>x\<in>set X. x \<noteq> c)"
  then have "set X \<subseteq> {c}" by auto
  then have "card (set X) \<le> card {c}" by (intro card_mono) simp_all
  with assms show False by (simp add: distinct_card)
qed

lemma regressor_distinct: "distinct (regressor values)"
  unfolding regressor_eq by (simp add: distinct_map inj_on_def)

lemma length_regressor: "length (regressor values) = length (response values)"
  by (simp add: regressor_eq response_eq)

lemma response_linear:
  assumes "\<forall>i<length values. \<not> isna (values ! i) \<longrightarrow> values ! i = Num (a + m * real i)"
  shows "response values = map (\<lambda>x. a + m * x) (regressor values)"
  unfolding regressor_eq response_eq map_map o_def
  by (intro map_cong) (use assms in auto)

text \<open>
  Claim C1, as the code has it. For a country that reaches the regression with at least six
  valid values in numeric year columns, \<open>growth_score\<close> is the least-squares slope of the
  valid values against their 0-based positions in the list of the selected year columns,
  counted before the missing values are discarded; so a missing year leaves a gap in the
  regressor. That slope, with the intercept that goes with it, makes the sum of the squared
  residuals as small as any line does. When the valid values are linear in that position
  with slope \<open>m\<close>, the growth score is \<open>m\<close>.
\<close>

theorem growth_is_slope_over_year_positions:
  assumes "lookup_values mapping budget_df c = Some (False, values)"
    and "6 \<le> length (response values)"
  shows "growth_score_of mapping budget_df c = coef (regressor values) (response values)
       \<and> regressor values = map real (filter (\<lambda>i. \<not> isna (values ! i)) [0..<length values])
       \<and> response values
           = map (\<lambda>i. the_float (values ! i)) (filter (\<lambda>i. \<not> isna (values ! i)) [0..<length values])
       \<and> (\<forall>a' b'.
             (\<Sum>(x, v)\<leftarrow>zip (regressor values) (response values).
                (v - (mean (response values)
                        - growth_score_of mapping budget_df c * mean (regressor values)
                      + growth_score_of mapping budget_df c * x))\<^sup>2)
             \<le> (\<Sum>(x, v)\<leftarrow>zip (regressor values) (response values). (v - (a' + b' * x))\<^sup>2))
       \<and> ((\<forall>i<length values. \<not> isna (values ! i) \<longrightarrow> values ! i = Num (a + m * real i))
            \<longrightarrow> growth_score_of mapping budget_df c = m)"
proof -
  have g: "growth_score_of mapping budget_df c = coef (regressor values) (response values)"
    using assms by (simp add: growth_score_of_def growth_of_country_eq trend_eq)
  have l: "growth_score_of mapping budget_df c = m"
    if lin: "\<forall>i<length values. \<not> isna (values ! i) \<longrightarrow> values ! i = Num (a + m * real i)"
  proof -
    have "2 \<le> length (regressor values)" using assms(2) by (simp add: length_regressor)
    with regressor_distinct have "\<exists>x\<in>set (regressor values). x \<noteq> mean (regressor values)"
      by (rule distinct_not_constant)
    then have "coef (regressor values) (map (\<lambda>x. a + m * x) (regressor values)) = m"
      by (rule coef_linear)
    then show ?thesis by (simp only: g response_linear[OF lin])
  qed
  have o: "(\<Sum>(x, v)\<leftarrow>zip (regressor values) (response values).
                (v - (mean (response values)
                        - growth_score_of mapping budget_df c * mean (regressor values)
                      + growth_score_of mapping budget_df c * x))\<^sup>2)
             \<le> (\<Sum>(x, v)\<leftarrow>zip (regressor values) (response values). (v - (a' + b' * x))\<^sup>2)"
    for a' b'
    unfolding g by (rule least_squares) (rule length_regressor)
  from g l o regressor_eq response_eq show ?thesis by blast
qed

text \<open>
  Claim C6, as the code has it. A country for which no values are read from the budget
  table has the growth score 0. For a country whose values are read: with fewer than six
  valid values the growth score is 0, whatever the values are; when one of the selected
  year columns has dtype object, \<^verbatim>\<open>np.isnan\<close> raises for the country and the growth score
  is 0, however many valid values there are; with six or more valid values in numeric year
  columns the regression is run: the growth score is the slope of the line that, among all
  lines, has the least sum of squared residuals over the valid values.
\<close>

theorem valid_years_threshold:
  "(lookup_values mapping budget_df c = None \<longrightarrow> growth_score_of mapping budget_df c = 0)
   \<and> (\<forall>object_dtype values.
         lookup_values mapping budget_df c = Some (object_dtype, values) \<longrightarrow>
           (length (response values) < 6 \<longrightarrow> growth_score_of mapping budget_df c = 0)
         \<and> (object_dtype \<longrightarrow>
                growth_of_country mapping budget_df c = Inl TypeError
              \<and> growth_score_of mapping budget_df c = 0)
         \<and> (6 \<le> length (response values) \<and> \<not> object_dtype \<longrightarrow>
                growth_of_country mapping budget_df c
                  = Inr (coef (regressor values) (response values))
              \<and> growth_score_of mapping budget_df c
                  = coef (regressor values) (response values)
              \<and> (\<forall>a b.
                   (\<Sum>(x, v)\<leftarrow>zip (regressor values) (response values).
                      (v - (mean (response values)
                              - growth_score_of mapping budget_df c * mean (regressor values)
                            + growth_score_of mapping budget_df c * x))\<^sup>2)
                   \<le> (\<Sum>(x, v)\<leftarrow>zip (regressor values) (response values).
                        (v - (a + b * x))\<^sup>2))))"
proof -
  have 1: "lookup_values mapping budget_df c = None \<longrightarrow> growth_score_of mapping budget_df c = 0"
    by (simp add: growth_score_of_def growth_of_country_eq)
  have 2: "(length (response vals) < 6 \<longrightarrow> growth_score_of mapping budget_df c = 0)
         \<and> (object_dtype \<longrightarrow>
                growth_of_country mapping budget_df c = Inl TypeError
              \<and> growth_score_of mapping budget_df c = 0)
         \<and> (6 \<le> length (response vals) \<and> \<not> object_dtype \<longrightarrow>
                growth_of_country mapping budget_df c
                  = Inr (coef (regressor vals) (response vals))
              \<and> growth_score_of mapping budget_df c
                  = coef (regressor vals) (response vals)
              \<and> (\<forall>a b.
                   (\<Sum>(x, v)\<leftarrow>zip (regressor vals) (response vals).
                      (v - (mean (response vals)
                              - growth_score_of mapping budget_df c * mean (regressor vals)
                            + growth_score_of mapping budget_df c * x))\<^sup>2)
                   \<le> (\<Sum>(x, v)\<leftarrow>zip (regressor vals) (response vals).
                        (v - (a + b * x))\<^sup>2)))"
    if l: "lookup_values mapping budget_df c = Some (object_dtype, vals)"
    for object_dtype vals
  proof -
    have g: "growth_of_country mapping budget_df c = trend object_dtype vals"
      by (simp add: growth_of_country_eq l)
    have a: "length (response vals) < 6 \<longrightarrow> growth_score_of mapping budget_df c = 0"
      by (simp add: growth_score_of_def g trend_eq)
    have b: "object_dtype \<longrightarrow>
                growth_of_country mapping budget_df c = Inl TypeError
              \<and> growth_score_of mapping budget_df c = 0"
      by (simp add: growth_score_of_def g trend_eq)
    have c: "growth_of_country mapping budget_df c
                  = Inr (coef (regressor vals) (response vals))
              \<and> growth_score_of mapping budget_df c
                  = coef (regressor vals) (response vals)
              \<and> (\<forall>a b.
                   (\<Sum>(x, v)\<leftarrow>zip (regressor vals) (response vals).
                      (v - (mean (response vals)
                              - growth_score_of mapping budget_df c * mean (regressor vals)
                            + growth_score_of mapping budget_df c * x))\<^sup>2)
                   \<le> (\<Sum>(x, v)\<leftarrow>zip (regressor vals) (response vals).
                        (v - (a + b * x))\<^sup>2))"
      if "6 \<le> length (response vals)" "\<not> object_dtype"
    proof -
      from that have s: "growth_score_of mapping budget_df c
                           = coef (regressor vals) (response vals)"
        by (simp add: growth_score_of_def g trend_eq)
      from that have r: "growth_of_country mapping budget_df c
                           = Inr (coef (regressor vals) (response vals))"
        by (simp add: g trend_eq)
      from r s least_squares[OF length_regressor[of vals]] show ?thesis
        unfolding s by blast
    qed
    from a b c show ?thesis by blast
  qed
  from 1 2 show ?thesis by blast
qed

subsection \<open>The examples: strength scorer\<close>

lemmas example_rows = country_A_def country_B_def country_C_def strength_A_def strength_B_def
  unparsed_def

lemmas scorer_defs = create_strength_score_def coerce_row_def dropna_def
  power_columns_def isna_def select_power_def fit_transform_def transform_row_def column_def
  mean_def var_def scale_of_def float_div_def row_mean_def map_filter_simps
  sort_values_desc_def sort_values_desc_nan_def scored_row_def

lemma example_survivors:
  "filter (all_seven_numeric unparsed) [country_A, country_B, country_C] = [country_A, country_B]"
  by (simp add: all_seven_numeric_def power_columns_def example_rows)

lemma example_matrix:
  "clean_matrix unparsed [country_A, country_B, country_C]
     = [[1, 1, 1, 1, 1, 1, 5], [3, 3, 3, 3, 3, 3, 5]]"
  by (simp only: clean_matrix_def example_survivors)
     (simp add: floats_def power_columns_def example_rows)

lemma example_scores:
  "snd (create_strength_score unparsed [country_A, country_B, country_C])
     = Inr [strength_B, strength_A]"
  by (simp add: scorer_defs example_rows upt_rec eval_nat_numeral del: not_None_eq)

text \<open>
  The three example countries: \<open>C\<close> is dropped, \<open>B\<close> ranks before \<open>A\<close>.
\<close>

theorem scorer_complete_cases_witness:
  "snd (create_strength_score unparsed [country_A, country_B, country_C])
     = Inr [strength_B, strength_A]
   \<and> mset (map country [strength_B, strength_A])
     = mset (map country (filter (all_seven_numeric unparsed) [country_A, country_B, country_C]))
   \<and> length (scaled strength_B) = 7
   \<and> (\<exists>zs. scaled strength_B = map Some zs
            \<and> strength_score strength_B = Some (sum_list zs / 7))
   \<and> strength_score strength_B = Some (6 / 7)"
proof -
  have s: "strength_score strength_B = Some (6 / 7)" by (simp add: strength_B_def)
  have m: "strength_B \<in> set [strength_B, strength_A]" by simp
  from scorer_complete_cases[OF example_scores] m
  have "length (scaled strength_B) = 7
   \<and> (\<exists>zs. scaled strength_B = map Some zs
            \<and> strength_score strength_B = Some (sum_list zs / 7))"
    by blast
  with s example_scores scorer_complete_cases[OF example_scores] show ?thesis by blast
qed

text \<open>
  In the example the last column is constant and the first is not: the first country has
  0 in the last column and \<open>- 1\<close> in the first.
\<close>

theorem standardization_of_columns_witness:
  "snd (create_strength_score unparsed [country_A, country_B, country_C])
     = Inr [strength_B, strength_A]
   \<and> constant_column (column 6 [[1, 1, 1, 1, 1, 1, 5], [3, 3, 3, 3, 3, 3, 5]])
   \<and> transform_row [[1, 1, 1, 1, 1, 1, 5], [3, 3, 3, 3, 3, 3, 5]] [1, 1, 1, 1, 1, 1, 5] ! 6
     = Some 0
   \<and> \<not> constant_column (column 0 [[1, 1, 1, 1, 1, 1, 5], [3, 3, 3, 3, 3, 3, 5]])
   \<and> transform_row [[1, 1, 1, 1, 1, 1, 5], [3, 3, 3, 3, 3, 3, 5]] [1, 1, 1, 1, 1, 1, 5] ! 0
     = Some (([1, 1, 1, 1, 1, 1, 5] ! 0
               - mean (column 0 [[1, 1, 1, 1, 1, 1, 5], [3, 3, 3, 3, 3, 3, 5]]))
             / sqrt (var (column 0 [[1, 1, 1, 1, 1, 1, 5], [3, 3, 3, 3, 3, 3, 5]])))
   \<and> transform_row [[1, 1, 1, 1, 1, 1, 5], [3, 3, 3, 3, 3, 3, 5]] [1, 1, 1, 1, 1, 1, 5] ! 0
     = Some (- 1)"
proof -
  let ?X = "[[1, 1, 1, 1, 1, 1, 5], [3, 3, 3, 3, 3, 3, 5::real]]"
  have X: "?X = clean_matrix unparsed [country_A, country_B, country_C]"
    by (simp only: example_matrix)
  have c6: "constant_column (column 6 ?X)"
    by (simp add: constant_column_def column_def)
  have c0: "\<not> constant_column (column 0 ?X)"
    by (simp add: constant_column_def column_def)
  have m: "[1, 1, 1, 1, 1, 1, 5] \<in> set ?X" by simp
  from standardization_of_columns[OF example_scores X, of 6] c6 m
  have 1: "transform_row ?X [1, 1, 1, 1, 1, 1, 5] ! 6 = Some 0" by simp
  from standardization_of_columns[OF example_scores X, of 0] c0 m
  have 2: "transform_row ?X [1, 1, 1, 1, 1, 1, 5] ! 0
     = Some (([1, 1, 1, 1, 1, 1, 5] ! 0 - mean (column 0 ?X)) / sqrt (var (column 0 ?X)))"
    by simp
  have 3: "transform_row ?X [1, 1, 1, 1, 1, 1, 5] ! 0 = Some (- 1)"
    by (simp add: transform_row_def float_div_def scale_of_def column_def mean_def var_def
          upt_rec eval_nat_numeral)
  from example_scores c6 c0 1 2 3 show ?thesis by blast
qed

text \<open>
  Claim C3, evaluated. With the one country \<open>C\<close>, whose population does not coerce, no row
  survives the complete-case filter; the frame handed to the scaler has no rows and the
  scorer raises the \<^verbatim>\<open>ValueError\<close> of the scaler. It does not return an empty table.
  The same happens for a table with no country at all.
\<close>

theorem scorer_raises_when_no_country_survives:
  "filter (all_seven_numeric unparsed) [country_C] = []
   \<and> snd (create_strength_score unparsed [country_C]) = Inl ValueError
   \<and> snd (create_strength_score unparsed [country_C]) \<noteq> Inr []
   \<and> snd (create_strength_score unparsed []) = Inl ValueError"
  by (simp add: all_seven_numeric_def scorer_defs example_rows)

subsection \<open>The examples: growth trajectory estimator\<close>

lemmas budget_defs = budget_AAA_def budget_BBB_def budget_CCC_def example_budget_def
  example_mapping_def country_mapping_def

lemma example_years:
  "filter (\<lambda>y. y \<in> set [2000, 2001, 2002, 2003, 2004, 2005, 2006]) [2000..2020]
     = [2000, 2001, 2002, 2003, 2004, 2005, 2006::int]"
  by (simp add: upto.simps)

lemma lookup_AAA: "lookup_values example_mapping example_budget ''A'' = Some (False, values_AAA)"
  by (simp add: lookup_values_def budget_defs example_rows code_eq_def example_years
        object_column_def values_AAA_def)

lemma lookup_CCC: "lookup_values example_mapping example_budget ''C'' = Some (False, values_CCC)"
  by (simp add: lookup_values_def budget_defs example_rows code_eq_def example_years
        object_column_def values_CCC_def)

lemma regressor_AAA: "regressor values_AAA = [0, 2, 3, 4, 5, 6]"
  by (simp add: regressor_def valid_indices_def masked_def values_AAA_def isna_def upt_rec)

lemma response_AAA: "response values_AAA = [0, 2, 3, 4, 5, 6]"
  by (simp add: response_def valid_indices_def masked_def values_AAA_def isna_def)

lemma response_CCC: "response values_CCC = [2, 2, 2, 2]"
  by (simp add: response_def valid_indices_def masked_def values_CCC_def isna_def)

lemma coef_AAA: "coef [0, 2, 3, 4, 5, 6] [0, 2, 3, 4, 5, 6] = 1"
  by (simp add: coef_def mean_def power2_eq_square)

lemma coef_sequential_AAA: "coef [0, 1, 2, 3, 4, 5] [0, 2, 3, 4, 5, 6] = 8 / 7"
  by (simp add: coef_def mean_def power2_eq_square)

lemma lookup_BBB: "lookup_values example_mapping example_budget ''B'' = Some (False, values_BBB)"
  by (simp add: lookup_values_def budget_defs example_rows code_eq_def example_years
        object_column_def values_BBB_def)

lemma growth_score_AAA: "growth_score_of example_mapping example_budget ''A'' = 1"
  by (simp add: growth_score_of_def growth_of_country_eq lookup_AAA trend_eq
        regressor_AAA response_AAA coef_AAA)

lemma response_BBB: "response values_BBB = [7, 7, 7, 7, 7, 7, 7]"
  by (simp add: response_def valid_indices_def masked_def values_BBB_def isna_def)

lemma regressor_BBB: "regressor values_BBB = [0, 1, 2, 3, 4, 5, 6]"
  by (simp add: regressor_def valid_indices_def masked_def values_BBB_def isna_def upt_rec)

lemma growth_score_BBB: "growth_score_of example_mapping example_budget ''B'' = 0"
  by (simp add: growth_score_of_def growth_of_country_eq lookup_BBB trend_eq response_BBB
        regressor_BBB)
     (simp add: coef_def mean_def)

lemma growth_score_CCC: "growth_score_of example_mapping example_budget ''C'' = 0"
  by (simp add: growth_score_of_def growth_of_country_eq lookup_CCC trend_eq response_CCC)

text \<open>
  Claim C1 as stated fails. \<open>A\<close> has the values 0, 2, 3, 4, 5, 6 at the positions
  0, 2, 3, 4, 5, 6. Its growth score is 1, the slope against these positions; the slope
  against the sequential index 0 to 5 of the valid years would be \<open>8/7\<close>.
\<close>

theorem sequential_index_counterexample:
  "lookup_values example_mapping example_budget ''A'' = Some (False, values_AAA)
   \<and> 6 \<le> length (response values_AAA)
   \<and> growth_score_of example_mapping example_budget ''A'' = 1
   \<and> coef (sequential_index values_AAA) (response values_AAA) = 8 / 7
   \<and> growth_score_of example_mapping example_budget ''A''
       \<noteq> coef (sequential_index values_AAA) (response values_AAA)"
proof -
  have s: "sequential_index values_AAA = [0, 1, 2, 3, 4, 5]"
    by (simp add: sequential_index_def response_AAA upt_rec)
  have "coef (sequential_index values_AAA) (response values_AAA) = 8 / 7"
    by (simp only: s response_AAA coef_sequential_AAA)
  then show ?thesis
    by (simp add: lookup_AAA response_AAA growth_score_AAA)
qed

lemma values_AAA_linear:
  "\<forall>i<length values_AAA. \<not> isna (values_AAA ! i) \<longrightarrow> values_AAA ! i = Num (0 + 1 * real i)"
  by (auto simp: values_AAA_def isna_def eval_nat_numeral less_Suc_eq)

text \<open>
  \<open>A\<close> grows by one a year and has no value for 2001: its growth score is 1.
\<close>

theorem growth_is_slope_over_year_positions_witness:
  "lookup_values example_mapping example_budget ''A'' = Some (False, values_AAA)
   \<and> 6 \<le> length (response values_AAA)
   \<and> growth_score_of example_mapping example_budget ''A'' = 1"
proof -
  have a: "6 \<le> length (response values_AAA)" by (simp add: response_AAA)
  from growth_is_slope_over_year_positions[OF lookup_AAA a, of 0 1] values_AAA_linear
  have "growth_score_of example_mapping example_budget ''A'' = 1" by blast
  with lookup_AAA a show ?thesis by blast
qed

lemma example_growth:
  "analyze_growth_trajectory [country_A, country_B, country_C] [strength_B, strength_A]
     example_budget = [growth_B, growth_A]"
proof -
  have c: "country strength_B = ''B''" "country strength_A = ''A''"
    by (simp_all add: strength_A_def strength_B_def)
  show ?thesis
    unfolding analyze_growth_trajectory_def Let_def example_mapping_def[symmetric]
    by (simp add: c growth_score_AAA growth_score_BBB normalize_def float_div_def with_growth_def
          strength_A_def strength_B_def growth_A_def growth_B_def)
qed

lemma lookup_parallel_AAA:
  "lookup_values (country_mapping [country_A, country_D]) parallel_budget ''A''
     = Some (False, values_AAA)"
  by (simp add: lookup_values_def budget_defs example_rows code_eq_def example_years
        object_column_def values_AAA_def parallel_budget_def budget_DDD_def country_D_def)

lemma lookup_parallel_DDD:
  "lookup_values (country_mapping [country_A, country_D]) parallel_budget ''D''
     = Some (False, values_DDD)"
  by (simp add: lookup_values_def budget_defs example_rows code_eq_def example_years
        object_column_def values_DDD_def parallel_budget_def budget_DDD_def country_D_def)

lemma response_DDD: "response values_DDD = [10, 11, 12, 13, 14, 15, 16]"
  by (simp add: response_def valid_indices_def masked_def values_DDD_def isna_def)

lemma regressor_DDD: "regressor values_DDD = [0, 1, 2, 3, 4, 5, 6]"
  by (simp add: regressor_def valid_indices_def masked_def values_DDD_def isna_def upt_rec)

lemma coef_DDD: "coef [0, 1, 2, 3, 4, 5, 6] [10, 11, 12, 13, 14, 15, 16] = 1"
  by (simp add: coef_def mean_def power2_eq_square)

lemma growth_score_parallel_AAA:
  "growth_score_of (country_mapping [country_A, country_D]) parallel_budget ''A'' = 1"
  by (simp add: growth_score_of_def growth_of_country_eq lookup_parallel_AAA trend_eq
        regressor_AAA response_AAA coef_AAA)

lemma growth_score_parallel_DDD:
  "growth_score_of (country_mapping [country_A, country_D]) parallel_budget ''D'' = 1"
  by (simp add: growth_score_of_def growth_of_country_eq lookup_parallel_DDD trend_eq
        regressor_DDD response_DDD coef_DDD)

lemma example_growth_parallel:
  "analyze_growth_trajectory [country_A, country_D] [strength_A, strength_D]
     parallel_budget = [parallel_A, parallel_D]"
proof -
  have c: "country strength_A = ''A''" "country strength_D = ''D''"
    by (simp_all add: strength_A_def strength_D_def)
  show ?thesis
    unfolding analyze_growth_trajectory_def Let_def
    by (simp add: c growth_score_parallel_AAA growth_score_parallel_DDD normalize_def
          with_growth_def strength_A_def strength_D_def parallel_A_def parallel_D_def)
qed

text \<open>
  Two countries with the scores 0 and 1 get 0 and 1; two countries that both have the
  score 1 both get 0.
\<close>

theorem growth_normalization_witness:
  "analyze_growth_trajectory [country_A, country_B, country_C] [strength_B, strength_A]
     example_budget = [growth_B, growth_A]
   \<and> map growth_score [growth_B, growth_A] = [0, 1]
   \<and> Max (set [0, 1::real]) \<noteq> Min (set [0, 1])
   \<and> growth_score_normalized growth_A
       = Some ((growth_score growth_A - Min (set [0, 1])) / (Max (set [0, 1]) - Min (set [0, 1])))
   \<and> growth_score_normalized growth_A = Some 1
   \<and> growth_score_normalized growth_B = Some 0
   \<and> analyze_growth_trajectory [country_A, country_D] [strength_A, strength_D]
       parallel_budget = [parallel_A, parallel_D]
   \<and> map growth_score [parallel_A, parallel_D] = [1, 1]
   \<and> Max (set [1, 1::real]) = Min (set [1, 1])
   \<and> growth_score_normalized parallel_A = Some 0
   \<and> growth_score_normalized parallel_D = Some 0"
proof -
  have G2: "[0, 1] = map growth_score [growth_B, growth_A]"
    by (simp add: growth_A_def growth_B_def)
  have G1: "[1, 1] = map growth_score [parallel_A, parallel_D]"
    by (simp add: parallel_A_def parallel_D_def)
  have ne: "Max (set [0, 1::real]) \<noteq> Min (set [0, 1])" by simp
  have eq: "Max (set [1, 1::real]) = Min (set [1, 1])" by simp
  from growth_normalization[OF example_growth[symmetric] G2] ne
  have 1: "growth_score_normalized growth_A
       = Some ((growth_score growth_A - Min (set [0, 1])) / (Max (set [0, 1]) - Min (set [0, 1])))"
    by simp
  then have 2: "growth_score_normalized growth_A = Some 1"
    by (simp add: growth_A_def)
  from growth_normalization[OF example_growth[symmetric] G2] ne
  have "growth_score_normalized growth_B
       = Some ((growth_score growth_B - Min (set [0, 1])) / (Max (set [0, 1]) - Min (set [0, 1])))"
    by simp
  then have 3: "growth_score_normalized growth_B = Some 0"
    by (simp add: growth_B_def)
  from growth_normalization[OF example_growth_parallel[symmetric] G1] eq
  have 4: "growth_score_normalized parallel_A = Some 0"
    and 5: "growth_score_normalized parallel_D = Some 0" by simp_all
  from example_growth G2[symmetric] ne 1 2 3 example_growth_parallel G1[symmetric] eq 4 5
  show ?thesis by blast
qed

lemma raise_AAA: "growth_of_country example_mapping text_budget ''A'' = Inl TypeError"
  by (simp add: growth_of_country_eq lookup_values_def budget_defs example_rows code_eq_def
        example_years object_column_def text_budget_def budget_TTT_def trend_eq)

lemma lookup_text_AAA:
  "lookup_values example_mapping text_budget ''A'' = Some (True, values_AAA)"
  by (simp add: lookup_values_def budget_defs example_rows code_eq_def example_years
        object_column_def text_budget_def budget_TTT_def values_AAA_def)

lemma lookup_absent_Z: "lookup_values example_mapping example_budget ''Z'' = None"
  by (simp add: lookup_values_def budget_defs example_rows)

text \<open>
  Claim C6 as stated fails. In a budget table where another row holds strings in the year
  columns, \<open>A\<close> has six valid values, which lie on a line of slope 1; \<^verbatim>\<open>np.isnan\<close> raises
  on its object array before any regression is run, and its growth score is 0.
\<close>

theorem six_valid_years_without_regression_counterexample:
  "lookup_values example_mapping text_budget ''A'' = Some (True, values_AAA)
   \<and> 6 \<le> length (response values_AAA)
   \<and> coef (regressor values_AAA) (response values_AAA) = 1
   \<and> growth_of_country example_mapping text_budget ''A'' = Inl TypeError
   \<and> growth_score_of example_mapping text_budget ''A'' = 0
   \<and> growth_score_of example_mapping text_budget ''A''
       \<noteq> coef (regressor values_AAA) (response values_AAA)"
proof -
  have c: "coef (regressor values_AAA) (response values_AAA) = 1"
    by (simp only: regressor_AAA response_AAA coef_AAA)
  have g: "growth_score_of example_mapping text_budget ''A'' = 0"
    by (simp add: growth_score_of_def raise_AAA)
  from lookup_text_AAA raise_AAA c g show ?thesis
    by (simp add: response_AAA)
qed

text \<open>
  \<open>Z\<close> is not read and has the score 0; \<open>C\<close> has four valid years and the score 0; \<open>A\<close> has
  six, on a line of slope 1, and the score 1; in the table with strings \<open>A\<close> has the score 0.
\<close>

theorem valid_years_threshold_witness:
  "lookup_values example_mapping example_budget ''Z'' = None
   \<and> growth_score_of example_mapping example_budget ''Z'' = 0
   \<and> lookup_values example_mapping example_budget ''C'' = Some (False, values_CCC)
   \<and> length (response values_CCC) < 6
   \<and> growth_score_of example_mapping example_budget ''C'' = 0
   \<and> lookup_values example_mapping example_budget ''A'' = Some (False, values_AAA)
   \<and> 6 \<le> length (response values_AAA)
   \<and> growth_score_of example_mapping example_budget ''A''
       = coef (regressor values_AAA) (response values_AAA)
   \<and> growth_score_of example_mapping example_budget ''A'' = 1
   \<and> lookup_values example_mapping text_budget ''A'' = Some (True, values_AAA)
   \<and> growth_of_country example_mapping text_budget ''A'' = Inl TypeError
   \<and> growth_score_of example_mapping text_budget ''A'' = 0"
proof -
  have c: "length (response values_CCC) < 6" by (simp add: response_CCC)
  have a: "6 \<le> length (response values_AAA)" by (simp add: response_AAA)
  have k: "coef (regressor values_AAA) (response values_AAA) = 1"
    by (simp only: regressor_AAA response_AAA coef_AAA)
  from valid_years_threshold[of example_mapping example_budget "''Z''"] lookup_absent_Z
  have 0: "growth_score_of example_mapping example_budget ''Z'' = 0" by blast
  from valid_years_threshold[of example_mapping example_budget "''C''"] lookup_CCC c
  have 1: "growth_score_of example_mapping example_budget ''C'' = 0" by blast
  from valid_years_threshold[of example_mapping example_budget "''A''"] lookup_AAA a
  have 2: "growth_score_of example_mapping example_budget ''A''
       = coef (regressor values_AAA) (response values_AAA)" by blast
  with k have 3: "growth_score_of example_mapping example_budget ''A'' = 1" by simp
  from valid_years_threshold[of example_mapping text_budget "''A''"] lookup_text_AAA
  have 4: "growth_of_country example_mapping text_budget ''A'' = Inl TypeError
         \<and> growth_score_of example_mapping text_budget ''A'' = 0" by blast
  from lookup_absent_Z 0 lookup_CCC c 1 lookup_AAA a 2 3 lookup_text_AAA 4
  show ?thesis by blast
qed

lemma absent_Z: "example_mapping ''Z'' = None"
  by (simp add: budget_defs example_rows)

text \<open>
  With a budget table whose year columns hold strings, \<^verbatim>\<open>np.isnan\<close> raises for \<open>A\<close>; \<open>Z\<close> is
  unknown to the lookup. Both get 0 and all three rows are returned.
\<close>

theorem per_country_recovery_witness:
  "length (analyze_growth_trajectory [country_A, country_B, country_C]
             [strength_B, strength_A, strength_Z] text_budget) = 3
   \<and> growth_of_country example_mapping text_budget ''A'' = Inl TypeError
   \<and> growth_score (analyze_growth_trajectory [country_A, country_B, country_C]
                     [strength_B, strength_A, strength_Z] text_budget ! 1) = 0
   \<and> example_mapping ''Z'' = None
   \<and> growth_score (analyze_growth_trajectory [country_A, country_B, country_C]
                     [strength_B, strength_A, strength_Z] text_budget ! 2) = 0"
proof -
  let ?out = "analyze_growth_trajectory [country_A, country_B, country_C]
                [strength_B, strength_A, strength_Z] text_budget"
  have c: "country ([strength_B, strength_A, strength_Z] ! 1) = ''A''"
    "country ([strength_B, strength_A, strength_Z] ! 2) = ''Z''"
    by (simp_all add: strength_A_def strength_Z_def)
  have i: "isl (growth_of_country example_mapping text_budget ''A'')"
    by (simp add: raise_AAA)
  note r = per_country_recovery[OF refl example_mapping_def,
      where strength_df = "[strength_B, strength_A, strength_Z]" and budget_df = text_budget]
  from r have l: "length ?out = 3" by simp
  have i1: "1 < length [strength_B, strength_A, strength_Z]" by simp
  have i2: "2 < length [strength_B, strength_A, strength_Z]" by simp
  from r[THEN conjunct2, rule_format, OF i1] i
  have 1: "growth_score (?out ! 1) = 0" unfolding c by blast
  from r[THEN conjunct2, rule_format, OF i2] absent_Z
  have 2: "growth_score (?out ! 2) = 0" unfolding c by blast
  from l raise_AAA 1 absent_Z 2 show ?thesis by blast
qed

subsection \<open>The examples: projection ranker and caller\<close>

lemma example_projection:
  "map (with_projection 2047) [growth_A, growth_B] = [proj_A, proj_B]"
  by (simp add: with_projection_def score_def strength_weight_def growth_weight_def
        growth_A_def growth_B_def proj_A_def proj_B_def)

lemma example_ranking:
  "predict_future_ranking [growth_A, growth_B] 2047 = ([proj_A, proj_B], [proj_B, proj_A])"
  unfolding predict_future_ranking_def Let_def example_projection
  by (simp add: sort_values_desc_nan_def sort_values_desc_def proj_A_def proj_B_def
        del: not_None_eq)

text \<open>
  For 2047 the example countries are ranked \<open>B\<close> before \<open>A\<close>.
\<close>

theorem projection_ranking_witness:
  "10 < (2047::int) - 2024 \<and> strength_weight 2047 = 0.5 \<and> growth_weight 2047 = 0.5
   \<and> \<not> 10 < (2034::int) - 2024 \<and> strength_weight 2034 = 0.7 \<and> growth_weight 2034 = 0.3
   \<and> snd (predict_future_ranking [growth_A, growth_B] 2047) = [proj_B, proj_A]
   \<and> mset [proj_B, proj_A] = mset (map (with_projection 2047) [growth_A, growth_B])"
proof -
  have a: "10 < (2047::int) - 2024" by simp
  have b: "\<not> 10 < (2034::int) - 2024" by simp
  have s: "snd (predict_future_ranking [growth_A, growth_B] 2047) = [proj_B, proj_A]"
    by (simp add: example_ranking)
  from projection_ranking[of 2047 "[growth_A, growth_B]"] a
  have 1: "strength_weight 2047 = 0.5 \<and> growth_weight 2047 = 0.5" by blast
  from projection_ranking[of 2034 "[growth_A, growth_B]"] b
  have 2: "strength_weight 2034 = 0.7 \<and> growth_weight 2034 = 0.3" by blast
  from projection_ranking[of 2047 "[growth_A, growth_B]"]
  have 3: "mset [proj_B, proj_A] = mset (map (with_projection 2047) [growth_A, growth_B])"
    unfolding s by blast
  from a b s 1 2 3 show ?thesis by blast
qed

lemma example_pipeline:
  "snd (pipeline unparsed [country_A, country_B, country_C] example_budget 2047)
     = Inr [proj_B, proj_A]"
proof -
  have f: "create_strength_score unparsed [country_A, country_B, country_C]
           = (map (coerce_row unparsed) [country_A, country_B, country_C],
              Inr [strength_B, strength_A])"
    using example_scores by (simp add: create_strength_score_eq split: if_splits)
  have m: "country_mapping (map (coerce_row unparsed) [country_A, country_B, country_C])
           = example_mapping"
    by (simp add: example_mapping_def country_mapping_def coerce_row_entity o_def)
  have g: "analyze_growth_trajectory (map (coerce_row unparsed) [country_A, country_B, country_C])
             [strength_B, strength_A] example_budget = [growth_B, growth_A]"
    using example_growth
    by (simp only: analyze_growth_trajectory_def m example_mapping_def[symmetric])
  have r: "snd (predict_future_ranking [growth_B, growth_A] 2047) = [proj_B, proj_A]"
    by (simp add: predict_future_ranking_def Let_def with_projection_def score_def
          strength_weight_def growth_weight_def growth_A_def growth_B_def proj_A_def proj_B_def
          sort_values_desc_nan_def sort_values_desc_def del: not_None_eq)
  show ?thesis
    by (simp only: pipeline_def f g r Let_def prod.case sum.case snd_conv)
qed

text \<open>
  In the example the first run changes the country table, and both runs rank \<open>B\<close> before
  \<open>A\<close>.
\<close>

theorem pipeline_rerun_witness:
  "fst (pipeline unparsed [country_A, country_B, country_C] example_budget 2047)
     \<noteq> [country_A, country_B, country_C]
   \<and> snd (pipeline unparsed [country_A, country_B, country_C] example_budget 2047)
     = Inr [proj_B, proj_A]
   \<and> snd (pipeline unparsed
            (fst (pipeline unparsed [country_A, country_B, country_C] example_budget 2047))
            example_budget 2047)
     = Inr [proj_B, proj_A]"
proof -
  have "fst (pipeline unparsed [country_A, country_B, country_C] example_budget 2047)
          = map (coerce_row unparsed) [country_A, country_B, country_C]"
    by (simp add: pipeline_def create_strength_score_eq Let_def)
  then have 1: "fst (pipeline unparsed [country_A, country_B, country_C] example_budget 2047)
     \<noteq> [country_A, country_B, country_C]"
    by (simp add: coerce_row_def example_rows)
  from pipeline_rerun[of unparsed "[country_A, country_B, country_C]" example_budget 2047]
    example_pipeline
  have 2: "snd (pipeline unparsed
            (fst (pipeline unparsed [country_A, country_B, country_C] example_budget 2047))
            example_budget 2047) = Inr [proj_B, proj_A]"
    by simp
  from 1 example_pipeline 2 show ?thesis by blast
qed

text \<open>
  Claim C4, evaluated. The scorer assigns the coerced columns to the frame it is given: the
  population of \<open>C\<close>, a string before the call, is NaN in that frame after it. The ranker
  assigns the column \<^verbatim>\<open>projection_score\<close> to the frame it is given: that frame holds
  the scores for 2047 after a call for 2047, and those for 2030 after a call for 2030.
\<close>

theorem components_assign_to_their_argument:
  "total_national_populations country_C = Text ''1,000''
   \<and> map total_national_populations (fst (create_strength_score unparsed [country_C])) = [NaN]
   \<and> fst (create_strength_score unparsed [country_C]) \<noteq> [country_C]
   \<and> map projection_score (fst (predict_future_ranking [growth_A, growth_B] 2047))
       = [Some (11 / 350), Some (129 / 350)]
   \<and> map projection_score (fst (predict_future_ranking [growth_A, growth_B] 2030))
       = [Some (- 17 / 50), Some (27 / 50)]"
proof -
  have 1: "total_national_populations country_C = Text ''1,000''
   \<and> map total_national_populations (fst (create_strength_score unparsed [country_C])) = [NaN]
   \<and> fst (create_strength_score unparsed [country_C]) \<noteq> [country_C]"
    by (simp add: scorer_defs example_rows)
  have 2: "map projection_score (fst (predict_future_ranking [growth_A, growth_B] 2047))
       = [Some (11 / 350), Some (129 / 350)]"
    by (simp add: example_ranking proj_A_def proj_B_def)
  have 3: "map projection_score (fst (predict_future_ranking [growth_A, growth_B] 2030))
       = [Some (- 17 / 50), Some (27 / 50)]"
    by (simp add: predict_future_ranking_def Let_def with_projection_def score_def
          strength_weight_def growth_weight_def growth_A_def growth_B_def)
  from 1 2 3 show ?thesis by blast
qed

subsection \<open>What the assignments leave unchanged\<close>

lemma scorer_frame:
  "length (fst (create_strength_score p df)) = length df
   \<and> map country (fst (create_strength_score p df)) = map country df
   \<and> map country_code (fst (create_strength_score p df)) = map country_code df
   \<and> map pwr_index (fst (create_strength_score p df)) = map pwr_index df"
  by (simp add: create_strength_score_eq coerce_row_entity o_def)

lemma scorer_frame_numeric:
  assumes "\<forall>r\<in>set df. \<forall>col\<in>set power_columns. \<not> is_text (col r)"
  shows "fst (create_strength_score p df) = df"
proof -
  have n: "to_numeric p c = c" if "\<not> is_text c" for c
    using that by (cases c) simp_all
  have "coerce_row p r = r" if "r \<in> set df" for r
    using assms that by (simp add: coerce_row_def power_columns_def n)
  then show ?thesis
    by (simp add: create_strength_score_eq map_idI)
qed

lemma ranker_frame:
  "fst (predict_future_ranking df target_year) = map (with_projection target_year) df
   \<and> map country (fst (predict_future_ranking df target_year)) = map country df
   \<and> map pwr_index (fst (predict_future_ranking df target_year)) = map pwr_index df
   \<and> map scaled (fst (predict_future_ranking df target_year)) = map scaled df
   \<and> map strength_score (fst (predict_future_ranking df target_year)) = map strength_score df
   \<and> map growth_score (fst (predict_future_ranking df target_year)) = map growth_score df
   \<and> map growth_score_normalized (fst (predict_future_ranking df target_year))
       = map growth_score_normalized df"
  by (simp add: predict_future_ranking_def Let_def with_projection_def o_def)

end
